theory Spec2Isabelle
  imports Complex_Main
begin

section \<open>Values shared by the voice pipeline\<close>

text \<open>
  Strings are byte strings (UTF-8), as the source files store their literals. A
  \<^verbatim>\<open>Blob\<close> is its bytes and its media-type tag.
\<close>

record blob =
  blob_data :: "nat list"
  blob_type :: string

definition blob_size :: "blob \<Rightarrow> nat" where
  "blob_size b = length (blob_data b)"

text \<open>\<^verbatim>\<open>new Blob(parts, {type})\<close>: the parts' bytes in order.\<close>

definition new_Blob :: "blob list \<Rightarrow> string \<Rightarrow> blob" where
  "new_Blob parts ty = \<lparr>blob_data = concat (map blob_data parts), blob_type = ty\<rparr>"

text \<open>
  \<^verbatim>\<open>interface VoiceTranscriptionResult { text: string; confidence?: number; error?: string }\<close>.
  A number is the exact value of the double.
\<close>

record VoiceTranscriptionResult =
  res_text :: string
  res_confidence :: "rat option"
  res_error :: "string option"

text \<open>JavaScript truthiness of an optional string, and \<^verbatim>\<open>a || b\<close> on it.\<close>

definition truthy :: "string option \<Rightarrow> bool" where
  "truthy v = (case v of None \<Rightarrow> False | Some s \<Rightarrow> s \<noteq> [])"

definition or_else :: "string option \<Rightarrow> string \<Rightarrow> string" where
  "or_else v d = (case v of None \<Rightarrow> d | Some s \<Rightarrow> if s = [] then d else s)"

text \<open>Decimal rendering of a non-negative integer inside a template literal.\<close>

definition digit_char :: "nat \<Rightarrow> char" where
  "digit_char d = ''0123456789'' ! d"

fun show_nat :: "nat \<Rightarrow> string" where
  "show_nat n = (if n < 10 then [digit_char n] else show_nat (n div 10) @ [digit_char (n mod 10)])"

declare show_nat.simps [simp del]

text \<open>
  \<^verbatim>\<open>String.prototype.trim\<close>: white space and line terminators are removed from both
  ends. The table lists them in UTF-8: U+0009 to U+000D, U+0020, U+00A0, U+1680, U+2000 to
  U+200A, U+2028, U+2029, U+202F, U+205F, U+3000 and U+FEFF.
\<close>

definition white_space :: "string list" where
  "white_space =
     [[CHR 0x09], [CHR 0x0A], [CHR 0x0B], [CHR 0x0C], [CHR 0x0D], [CHR 0x20],
      [CHR 0xC2, CHR 0xA0], [CHR 0xE1, CHR 0x9A, CHR 0x80],
      [CHR 0xE2, CHR 0x80, CHR 0x80], [CHR 0xE2, CHR 0x80, CHR 0x81],
      [CHR 0xE2, CHR 0x80, CHR 0x82], [CHR 0xE2, CHR 0x80, CHR 0x83],
      [CHR 0xE2, CHR 0x80, CHR 0x84], [CHR 0xE2, CHR 0x80, CHR 0x85],
      [CHR 0xE2, CHR 0x80, CHR 0x86], [CHR 0xE2, CHR 0x80, CHR 0x87],
      [CHR 0xE2, CHR 0x80, CHR 0x88], [CHR 0xE2, CHR 0x80, CHR 0x89],
      [CHR 0xE2, CHR 0x80, CHR 0x8A], [CHR 0xE2, CHR 0x80, CHR 0xA8],
      [CHR 0xE2, CHR 0x80, CHR 0xA9], [CHR 0xE2, CHR 0x80, CHR 0xAF],
      [CHR 0xE2, CHR 0x81, CHR 0x9F], [CHR 0xE3, CHR 0x80, CHR 0x80],
      [CHR 0xEF, CHR 0xBB, CHR 0xBF]]"

fun starts_with :: "string \<Rightarrow> string \<Rightarrow> bool" where
  "starts_with [] s = True"
| "starts_with (c # w) [] = False"
| "starts_with (c # w) (d # s) = (c = d \<and> starts_with w s)"

function strip :: "string list \<Rightarrow> string \<Rightarrow> string" where
  "strip ws s =
     (case find (\<lambda>w. w \<noteq> [] \<and> starts_with w s) ws of
        None \<Rightarrow> s
      | Some w \<Rightarrow> strip ws (drop (length w) s))"
  by pat_completeness auto
termination
proof (relation "measure (\<lambda>(ws, s). length s)")
  show "wf (measure (\<lambda>(ws, s). length s))" by simp
next
  fix ws :: "string list" and s w :: string
  assume "find (\<lambda>w. w \<noteq> [] \<and> starts_with w s) ws = Some w"
  then have "w \<noteq> []" and "starts_with w s"
    by (auto simp: find_Some_iff)
  then have "s \<noteq> []"
    by (cases w; cases s) simp_all
  with \<open>w \<noteq> []\<close> show "((ws, drop (length w) s), (ws, s)) \<in> measure (\<lambda>(ws, s). length s)"
    by simp
qed

declare strip.simps [simp del]

definition trimStart :: "string \<Rightarrow> string" where
  "trimStart s = strip white_space s"

definition trimEnd :: "string \<Rightarrow> string" where
  "trimEnd s = rev (strip (map rev white_space) (rev s))"

definition trim :: "string \<Rightarrow> string" where
  "trim s = trimEnd (trimStart s)"

section \<open>Transcription client: configuration, network and effects\<close>

text \<open>
  \<^verbatim>\<open>VOICE_API_CONFIG\<close> of \<^verbatim>\<open>src/lib/supabase.ts\<close>: the two keys come from the build
  environment and may be undefined; the endpoints are constants.
\<close>

record VOICE_API_CONFIG =
  openai_apiKey :: "string option"
  gemini_apiKey :: "string option"

definition openai_endpoint :: string where
  "openai_endpoint = ''https://api.openai.com/v1/audio/transcriptions''"

definition gemini_endpoint :: string where
  "gemini_endpoint = ''https://speech.googleapis.com/v1/speech:recognize''"

datatype form_part = FilePart blob string | TextPart string

text \<open>
  The body of the speech request carries the audio as base64 text; the model keeps the
  bytes that text encodes.
\<close>

datatype request_payload =
    FormData "(string \<times> form_part) list"
  | RecognizeBody (cfg_encoding: string) (cfg_sampleRateHertz: nat) (cfg_languageCode: string)
      (cfg_enableAutomaticPunctuation: bool) (audio_content: "nat list")

record http_request =
  req_url :: string
  req_method :: string
  req_headers :: "(string \<times> string) list"
  req_body :: request_payload

text \<open>
  What the adapters read of a parsed response body: \<^verbatim>\<open>error?.message\<close>, \<^verbatim>\<open>text\<close> and
  \<^verbatim>\<open>results[..].alternatives[..].{transcript, confidence}\<close>; \<open>None\<close> is an absent field.
\<close>

record alternative =
  alt_transcript :: "string option"
  alt_confidence :: "rat option"

record speech_result =
  alternatives :: "alternative list option"

record json_object =
  error_message :: "string option"
  body_text :: "string option"
  results :: "speech_result list option"

text \<open>
  \<^verbatim>\<open>await response.json()\<close> rejects (the body is not JSON), or yields \<^verbatim>\<open>null\<close>, on
  which every property read throws a TypeError, or yields an object.
\<close>

datatype json_body = NotJson string | JsonNull | JsonObject json_object

record http_response =
  resp_ok :: bool
  resp_status :: nat
  resp_statusText :: string
  resp_body :: json_body

datatype fetch_outcome = FetchRejects string | FetchResponds http_response

text \<open>
  The environment of one call: the configuration, the network as the answer to each
  request, and the engine's limit on the number of arguments of a spread call (the
  speech adapter spreads every byte of the audio into \<^verbatim>\<open>String.fromCharCode\<close>).
\<close>

record env =
  config :: VOICE_API_CONFIG
  fetch :: "http_request \<Rightarrow> fetch_outcome"
  spread_limit :: "nat option"

text \<open>The observable effects of a call, in order.\<close>

datatype event = Fetch http_request | ConsoleLog string | ConsoleError string

text \<open>Outcome of a \<^verbatim>\<open>try\<close> body: it throws an error with this message, or returns.\<close>

datatype 'a attempt = Throws string | Returns 'a

definition null_read_message :: "string \<Rightarrow> string" where
  "null_read_message p = ''Cannot read properties of null (reading '' @ [CHR 0x27] @ p @ [CHR 0x27] @ '')''"

definition api_error :: "string \<Rightarrow> http_response \<Rightarrow> json_object \<Rightarrow> string" where
  "api_error name resp errorData =
     name @ '' API error: '' @ show_nat (resp_status resp) @ '' - '' @
     or_else (error_message errorData) (resp_statusText resp)"

definition empty_object :: json_object where
  "empty_object = \<lparr>error_message = None, body_text = None, results = None\<rparr>"

text \<open>The \<^verbatim>\<open>if (!response.ok)\<close> block of both adapters; it always throws.\<close>

definition not_ok_error :: "string \<Rightarrow> http_response \<Rightarrow> string" where
  "not_ok_error name resp =
     (case resp_body resp of
        NotJson _ \<Rightarrow> api_error name resp empty_object
      | JsonNull \<Rightarrow> null_read_message ''error''
      | JsonObject errorData \<Rightarrow> api_error name resp errorData)"

subsection \<open>\<^verbatim>\<open>transcribeWithOpenAI\<close>\<close>

definition openai_not_configured :: string where
  "openai_not_configured =
     ''OpenAI API key not configured. Please add VITE_OPENAI_API_KEY to your environment variables.''"

definition openai_request :: "string \<Rightarrow> blob \<Rightarrow> http_request" where
  "openai_request apiKey audioBlob =
     \<lparr>req_url = openai_endpoint, req_method = ''POST'',
      req_headers = [(''Authorization'', ''Bearer '' @ apiKey)],
      req_body = FormData [(''file'', FilePart audioBlob ''audio.webm''),
                           (''model'', TextPart ''whisper-1''),
                           (''language'', TextPart ''en'')]\<rparr>"

definition openai_try :: "fetch_outcome \<Rightarrow> VoiceTranscriptionResult attempt" where
  "openai_try out =
     (case out of
        FetchRejects m \<Rightarrow> Throws m
      | FetchResponds response \<Rightarrow>
          if \<not> resp_ok response then Throws (not_ok_error ''OpenAI'' response)
          else (case resp_body response of
                  NotJson m \<Rightarrow> Throws m
                | JsonNull \<Rightarrow> Throws (null_read_message ''text'')
                | JsonObject data \<Rightarrow>
                    Returns \<lparr>res_text = or_else (body_text data) [],
                             res_confidence = Some 1, res_error = None\<rparr>))"

definition failure :: "string \<Rightarrow> VoiceTranscriptionResult" where
  "failure msg = \<lparr>res_text = [], res_confidence = None, res_error = Some msg\<rparr>"

definition transcribeWithOpenAI :: "env \<Rightarrow> blob \<Rightarrow> event list \<times> VoiceTranscriptionResult" where
  "transcribeWithOpenAI e audioBlob =
     (if \<not> truthy (openai_apiKey (config e)) then ([], failure openai_not_configured)
      else
        let req = openai_request (or_else (openai_apiKey (config e)) []) audioBlob in
        case openai_try (fetch e req) of
          Returns r \<Rightarrow> ([Fetch req], r)
        | Throws m \<Rightarrow>
            ([Fetch req, ConsoleError ''OpenAI transcription error:''],
             failure (or_else (Some m) ''Failed to transcribe audio with OpenAI'')))"

subsection \<open>\<^verbatim>\<open>transcribeWithGemini\<close>\<close>

definition gemini_not_configured :: string where
  "gemini_not_configured =
     ''Gemini API key not configured. Please add VITE_GEMINI_API_KEY to your environment variables.''"

definition gemini_no_results :: string where
  "gemini_no_results = ''No transcription results from Gemini''"

definition gemini_request :: "string \<Rightarrow> blob \<Rightarrow> http_request" where
  "gemini_request apiKey audioBlob =
     \<lparr>req_url = gemini_endpoint @ ''?key='' @ apiKey, req_method = ''POST'',
      req_headers = [(''Content-Type'', ''application/json'')],
      req_body = RecognizeBody ''WEBM_OPUS'' 16000 ''en-US'' True (blob_data audioBlob)\<rparr>"

definition spread_fails :: "env \<Rightarrow> blob \<Rightarrow> bool" where
  "spread_fails e audioBlob =
     (case spread_limit e of None \<Rightarrow> False | Some n \<Rightarrow> n < blob_size audioBlob)"

definition gemini_data :: "json_object \<Rightarrow> VoiceTranscriptionResult" where
  "gemini_data data =
     (case results data of
        Some (result # _) \<Rightarrow>
          (case alternatives result of
             Some (a # _) \<Rightarrow>
               \<lparr>res_text = or_else (alt_transcript a) [],
                res_confidence =
                  Some (case alt_confidence a of
                          None \<Rightarrow> 1 / 2
                        | Some c \<Rightarrow> if c = 0 then 1 / 2 else c),
                res_error = None\<rparr>
           | _ \<Rightarrow> failure gemini_no_results)
      | _ \<Rightarrow> failure gemini_no_results)"

definition gemini_try :: "fetch_outcome \<Rightarrow> VoiceTranscriptionResult attempt" where
  "gemini_try out =
     (case out of
        FetchRejects m \<Rightarrow> Throws m
      | FetchResponds response \<Rightarrow>
          if \<not> resp_ok response then Throws (not_ok_error ''Gemini'' response)
          else (case resp_body response of
                  NotJson m \<Rightarrow> Throws m
                | JsonNull \<Rightarrow> Throws (null_read_message ''results'')
                | JsonObject data \<Rightarrow> Returns (gemini_data data)))"

definition transcribeWithGemini :: "env \<Rightarrow> blob \<Rightarrow> event list \<times> VoiceTranscriptionResult" where
  "transcribeWithGemini e audioBlob =
     (if \<not> truthy (gemini_apiKey (config e)) then ([], failure gemini_not_configured)
      else if spread_fails e audioBlob then
        ([ConsoleError ''Gemini transcription error:''],
         failure ''Maximum call stack size exceeded'')
      else
        let req = gemini_request (or_else (gemini_apiKey (config e)) []) audioBlob in
        case gemini_try (fetch e req) of
          Returns r \<Rightarrow> ([Fetch req], r)
        | Throws m \<Rightarrow>
            ([Fetch req, ConsoleError ''Gemini transcription error:''],
             failure (or_else (Some m) ''Failed to transcribe audio with Gemini'')))"

subsection \<open>\<^verbatim>\<open>transcribe\<close>: preferred service first, then the other\<close>

datatype service = OpenAI | Gemini

definition other :: "service \<Rightarrow> service" where
  "other p = (case p of OpenAI \<Rightarrow> Gemini | Gemini \<Rightarrow> OpenAI)"

definition adapter :: "service \<Rightarrow> env \<Rightarrow> blob \<Rightarrow> event list \<times> VoiceTranscriptionResult" where
  "adapter p = (case p of OpenAI \<Rightarrow> transcribeWithOpenAI | Gemini \<Rightarrow> transcribeWithGemini)"

definition transcribe :: "env \<Rightarrow> blob \<Rightarrow> service \<Rightarrow> event list \<times> VoiceTranscriptionResult" where
  "transcribe e audioBlob preferredService =
     (case preferredService of
        OpenAI \<Rightarrow>
          (let (ev, result) = transcribeWithOpenAI e audioBlob in
           if \<not> truthy (res_error result) then (ev, result)
           else
             let (ev', result') = transcribeWithGemini e audioBlob in
             (ev @ [ConsoleLog ''OpenAI failed, trying Gemini...''] @ ev', result'))
      | Gemini \<Rightarrow>
          (let (ev, result) = transcribeWithGemini e audioBlob in
           if \<not> truthy (res_error result) then (ev, result)
           else
             let (ev', result') = transcribeWithOpenAI e audioBlob in
             (ev @ [ConsoleLog ''Gemini failed, trying OpenAI...''] @ ev', result')))"


section \<open>Relay server: \<^verbatim>\<open>POST /chat\<close>\<close>

text \<open>
  The parsed request body \<^verbatim>\<open>{ message, audioBase64 }\<close>; \<open>None\<close> is an absent field.
  The handler forwards \<^verbatim>\<open>{model, prompt, stream}\<close> to the generation model. The call to
  the model throws (the fetch or the parsing of its answer fails), or the parsed answer has
  the field \<^verbatim>\<open>response\<close>, or lacks it.
\<close>

record chat_request =
  message :: "string option"
  audioBase64 :: "string option"

record generate_request =
  gen_model :: string
  gen_prompt :: string
  gen_stream :: bool

datatype generate_outcome = GenerateThrows | GenerateAnswers "string option"

text \<open>\<^verbatim>\<open>res.status(n).json({ response })\<close>: the status and the serialised object.\<close>

record chat_response =
  status :: nat
  body :: string

text \<open>\<^verbatim>\<open>JSON.stringify\<close> of a string, and of an object with the one key \<^verbatim>\<open>response\<close>.\<close>

definition hex_digit :: "nat \<Rightarrow> char" where
  "hex_digit d = ''0123456789abcdef'' ! d"

definition json_escape :: "char \<Rightarrow> string" where
  "json_escape c =
     (if c = CHR 0x22 then [CHR 0x5C, CHR 0x22]
      else if c = CHR 0x5C then [CHR 0x5C, CHR 0x5C]
      else if c = CHR 0x08 then [CHR 0x5C, CHR ''b'']
      else if c = CHR 0x0C then [CHR 0x5C, CHR ''f'']
      else if c = CHR 0x0A then [CHR 0x5C, CHR ''n'']
      else if c = CHR 0x0D then [CHR 0x5C, CHR ''r'']
      else if c = CHR 0x09 then [CHR 0x5C, CHR ''t'']
      else if (of_char c :: nat) < 32 then
        [CHR 0x5C, CHR ''u'', CHR ''0'', CHR ''0'',
         hex_digit (of_char c div 16), hex_digit (of_char c mod 16)]
      else [c])"

definition json_string :: "string \<Rightarrow> string" where
  "json_string s = [CHR 0x22] @ concat (map json_escape s) @ [CHR 0x22]"

definition response_json :: "string \<Rightarrow> string" where
  "response_json r = ''{'' @ json_string ''response'' @ '':'' @ json_string r @ ''}''"

definition chat_prompt :: "chat_request \<Rightarrow> string option" where
  "chat_prompt req =
     (if truthy (audioBase64 req)
      then Some (''Transcribe this patient audio (base64-encoded): '' @ or_else (audioBase64 req) [])
      else message req)"

definition chat :: "(generate_request \<Rightarrow> generate_outcome) \<Rightarrow> chat_request \<Rightarrow>
    generate_request list \<times> chat_response" where
  "chat generate req =
     (let prompt = chat_prompt req in
      if \<not> truthy prompt then
        ([], \<lparr>status = 400, body = response_json ''No message or audioBase64 provided.''\<rparr>)
      else
        let g = \<lparr>gen_model = ''med-intake'', gen_prompt = or_else prompt [], gen_stream = False\<rparr> in
        case generate g of
          GenerateThrows \<Rightarrow>
            ([g], \<lparr>status = 500, body = response_json ''Error: Unable to reach AI model.''\<rparr>)
        | GenerateAnswers r \<Rightarrow>
            ([g], \<lparr>status = 200, body = response_json (or_else (map_option trim r) [])\<rparr>))"

section \<open>Audio capture: \<^verbatim>\<open>VoiceAPIService\<close> and the browser's media objects\<close>

text \<open>
  A thrown or rejected value: the error's name and its \<^verbatim>\<open>message\<close>.
\<close>

datatype js_error = JsError (err_name: string) (err_message: string)

text \<open>A promise is resolved, rejected, or never settled.\<close>

datatype 'a promise = Resolved 'a | Rejected js_error | Pending

text \<open>
  The browser side. Every \<^verbatim>\<open>MediaStream\<close> that \<^verbatim>\<open>getUserMedia\<close> has handed out is
  an entry of \<open>streams\<close>: for each of its tracks, the number of \<^verbatim>\<open>stop()\<close> calls it has
  received (a track is live while that number is 0). Every \<^verbatim>\<open>MediaRecorder\<close> that was
  constructed is an entry of \<open>recorders\<close>. The three fields of the service follow;
  \<open>mediaRecorder\<close> refers to a recorder by its position.
\<close>

datatype recorder_state = Inactive | Recording

record MediaRecorder =
  rec_stream :: nat
  mimeType :: string
  rec_state :: recorder_state

record capture =
  streams :: "nat list list"
  recorders :: "MediaRecorder list"
  mediaRecorder :: "nat option"
  audioChunks :: "blob list"
  isRecording :: bool

definition initial_capture :: capture where
  "initial_capture =
     \<lparr>streams = [], recorders = [], mediaRecorder = None, audioChunks = [], isRecording = False\<rparr>"

text \<open>
  What the browser answers during one call: \<^verbatim>\<open>getUserMedia\<close> rejects or grants a
  stream with some tracks; \<^verbatim>\<open>MediaRecorder.isTypeSupported\<close>; and the exception that
  \<^verbatim>\<open>new MediaRecorder\<close> throws for a type that is not supported.
\<close>

datatype gum_outcome = GumRejects js_error | GumGrants nat

record media =
  getUserMedia :: gum_outcome
  isTypeSupported :: "string \<Rightarrow> bool"
  notSupported :: js_error

text \<open>
  What the browser does when \<^verbatim>\<open>MediaRecorder.stop()\<close> is called: on a recording
  recorder it delivers the last chunk (\<^verbatim>\<open>dataavailable\<close>) and then \<^verbatim>\<open>stop\<close>, after
  an \<^verbatim>\<open>error\<close> event if the recorder failed; on an inactive recorder it throws
  (\<open>Some\<close>) or ignores the call (\<open>None\<close>), depending on the browser.
\<close>

record stop_events =
  final_chunk :: blob
  error_event :: "string option"
  stop_inactive :: "js_error option"

definition open_stream :: "nat \<Rightarrow> capture \<Rightarrow> nat \<times> capture" where
  "open_stream n s = (length (streams s), s\<lparr>streams := streams s @ [replicate n 0]\<rparr>)"

text \<open>\<^verbatim>\<open>stream.getTracks().forEach(track => track.stop())\<close>\<close>

definition stop_tracks :: "nat \<Rightarrow> capture \<Rightarrow> capture" where
  "stop_tracks i s =
     (if i < length (streams s) then s\<lparr>streams := (streams s)[i := map Suc (streams s ! i)]\<rparr>
      else s)"

definition new_MediaRecorder :: "media \<Rightarrow> nat \<Rightarrow> string \<Rightarrow> capture \<Rightarrow> js_error + nat \<times> capture" where
  "new_MediaRecorder m i ty s =
     (if \<not> isTypeSupported m ty then Inl (notSupported m)
      else Inr (length (recorders s),
                s\<lparr>recorders := recorders s @
                     [\<lparr>rec_stream = i, mimeType = ty, rec_state = Inactive\<rparr>]\<rparr>))"

definition set_rec_state :: "nat \<Rightarrow> recorder_state \<Rightarrow> capture \<Rightarrow> capture" where
  "set_rec_state r st s =
     (if r < length (recorders s)
      then s\<lparr>recorders := (recorders s)[r := (recorders s ! r)\<lparr>rec_state := st\<rparr>]\<rparr>
      else s)"

text \<open>The handler \<^verbatim>\<open>ondataavailable\<close> of both variants.\<close>

definition ondataavailable :: "blob \<Rightarrow> capture \<Rightarrow> capture" where
  "ondataavailable d s =
     (if blob_size d > 0 then s\<lparr>audioChunks := audioChunks s @ [d]\<rparr> else s)"

subsection \<open>The service with two transcription providers\<close>

definition requestMicrophonePermission :: "media \<Rightarrow> capture \<Rightarrow> bool \<times> capture" where
  "requestMicrophonePermission m s =
     (case getUserMedia m of
        GumRejects e \<Rightarrow> (False, s)
      | GumGrants n \<Rightarrow> (let (i, s1) = open_stream n s in (True, stop_tracks i s1)))"

definition choose_mimeType :: "(string \<Rightarrow> bool) \<Rightarrow> string" where
  "choose_mimeType supported =
     (if supported ''audio/webm;codecs=opus'' then ''audio/webm;codecs=opus''
      else if supported ''audio/mp4'' then ''audio/mp4''
      else if supported ''audio/wav'' then ''audio/wav''
      else ''audio/webm'')"

definition already_recording :: js_error where
  "already_recording = JsError ''Error'' ''Already recording''"

definition not_currently_recording :: js_error where
  "not_currently_recording = JsError ''Error'' ''Not currently recording''"

definition startRecording :: "media \<Rightarrow> capture \<Rightarrow> (js_error + unit) \<times> capture" where
  "startRecording m s =
     (if isRecording s then (Inl already_recording, s)
      else
        case getUserMedia m of
          GumRejects e \<Rightarrow> (Inl e, s)
        | GumGrants n \<Rightarrow>
            (let (i, s1) = open_stream n s in
             case new_MediaRecorder m i (choose_mimeType (isTypeSupported m)) s1 of
               Inl e \<Rightarrow> (Inl e, s1)
             | Inr (r, s2) \<Rightarrow>
                 (Inr (),
                  (set_rec_state r Recording (s2\<lparr>mediaRecorder := Some r, audioChunks := []\<rparr>))
                    \<lparr>isRecording := True\<rparr>)))"

text \<open>
  The handler \<^verbatim>\<open>onstop\<close> builds the sample, clears the flag and stops the tracks of the
  recorder's stream; \<^verbatim>\<open>onerror\<close> rejects, and the \<^verbatim>\<open>stop\<close> event that follows still
  runs \<^verbatim>\<open>onstop\<close>, whose \<^verbatim>\<open>resolve\<close> then has no effect.
\<close>

definition stopRecording :: "stop_events \<Rightarrow> capture \<Rightarrow> blob promise \<times> capture" where
  "stopRecording ev s =
     (case mediaRecorder s of
        None \<Rightarrow> (Rejected not_currently_recording, s)
      | Some r \<Rightarrow>
          if \<not> isRecording s then (Rejected not_currently_recording, s)
          else if rec_state (recorders s ! r) = Inactive then
            (case stop_inactive ev of Some e \<Rightarrow> (Rejected e, s) | None \<Rightarrow> (Pending, s))
          else
            let s1 = ondataavailable (final_chunk ev) (set_rec_state r Inactive s);
                audioBlob = new_Blob (audioChunks s1) (mimeType (recorders s1 ! r));
                s2 = stop_tracks (rec_stream (recorders s1 ! r)) (s1\<lparr>isRecording := False\<rparr>)
            in (case error_event ev of
                  Some e \<Rightarrow> Rejected (JsError ''Error'' (''Recording error: '' @ e))
                | None \<Rightarrow> Resolved audioBlob,
                s2))"

subsection \<open>The service that transcribes through the relay\<close>

definition not_recording :: js_error where
  "not_recording = JsError ''Error'' ''Not recording''"

definition startRecording_relay :: "media \<Rightarrow> capture \<Rightarrow> (js_error + unit) \<times> capture" where
  "startRecording_relay m s =
     (case getUserMedia m of
        GumRejects e \<Rightarrow> (Inl e, s)
      | GumGrants n \<Rightarrow>
          (let (i, s1) = open_stream n s;
               s1' = s1\<lparr>audioChunks := []\<rparr> in
           case new_MediaRecorder m i ''audio/webm'' s1' of
             Inl e \<Rightarrow> (Inl e, s1')
           | Inr (r, s2) \<Rightarrow>
               (Inr (),
                (set_rec_state r Recording (s2\<lparr>mediaRecorder := Some r\<rparr>))
                  \<lparr>isRecording := True\<rparr>)))"

definition stopRecording_relay :: "stop_events \<Rightarrow> capture \<Rightarrow> blob promise \<times> capture" where
  "stopRecording_relay ev s =
     (case mediaRecorder s of
        None \<Rightarrow> (Rejected not_recording, s)
      | Some r \<Rightarrow>
          if rec_state (recorders s ! r) = Inactive then
            (case stop_inactive ev of Some e \<Rightarrow> (Rejected e, s) | None \<Rightarrow> (Pending, s))
          else
            let s1 = ondataavailable (final_chunk ev) (set_rec_state r Inactive s);
                audioBlob = new_Blob (audioChunks s1) (mimeType (recorders s1 ! r));
                s2 = stop_tracks (rec_stream (recorders s1 ! r)) (s1\<lparr>isRecording := False\<rparr>)
            in (Resolved audioBlob, s2))"

subsection \<open>What is open\<close>

text \<open>The positions of the recorders that are recording, and of the streams with a live track.\<close>

definition open_recordings :: "capture \<Rightarrow> nat list" where
  "open_recordings s =
     filter (\<lambda>r. rec_state (recorders s ! r) = Recording) [0..<length (recorders s)]"

definition live_streams :: "capture \<Rightarrow> nat list" where
  "live_streams s =
     filter (\<lambda>i. list_ex (\<lambda>t. t = 0) (streams s ! i)) [0..<length (streams s)]"

text \<open>The states the first service reaches from its initial state, one call or event at a time.\<close>

inductive reachable :: "capture \<Rightarrow> bool" where
  reach_init: "reachable initial_capture"
| reach_permission: "reachable s \<Longrightarrow> reachable (snd (requestMicrophonePermission m s))"
| reach_start: "reachable s \<Longrightarrow> reachable (snd (startRecording m s))"
| reach_data: "reachable s \<Longrightarrow> reachable (ondataavailable d s)"
| reach_stop: "reachable s \<Longrightarrow> reachable (snd (stopRecording ev s))"

text \<open>The same for the service that transcribes through the relay.\<close>

inductive reachable_relay :: "capture \<Rightarrow> bool" where
  relay_init: "reachable_relay initial_capture"
| relay_permission: "reachable_relay s \<Longrightarrow> reachable_relay (snd (requestMicrophonePermission m s))"
| relay_start: "reachable_relay s \<Longrightarrow> reachable_relay (snd (startRecording_relay m s))"
| relay_data: "reachable_relay s \<Longrightarrow> reachable_relay (ondataavailable d s)"
| relay_stop: "reachable_relay s \<Longrightarrow> reachable_relay (snd (stopRecording_relay ev s))"

section \<open>Voice session of the intake form (\<^verbatim>\<open>VoiceIntakeForm\<close>)\<close>

datatype field =
    firstName | lastName | dateOfBirth | phone | address
  | chiefComplaint | allergies | medications | medicalHistory

record VoiceRecognitionState =
  isSupported :: bool
  isListening :: bool
  hasPermission :: bool
  error :: string
  transcript :: string

text \<open>
  The handlers of one render read the state through the constants of that render: they see
  \<^verbatim>\<open>voiceState\<close>, \<^verbatim>\<open>currentField\<close> and \<^verbatim>\<open>preferredVoiceService\<close> as they were when the
  component rendered, also when they run later from a timer. Updates written as
  \<^verbatim>\<open>setX(prev => ...)\<close> act on the current state.
\<close>

record closure =
  seen_voiceState :: VoiceRecognitionState
  seen_currentField :: "field option"
  seen_preferredVoiceService :: service

datatype callback = AutoStop closure | ClearStatus

record timer =
  timer_id :: nat
  delay :: nat
  callback :: callback

text \<open>
  The component: its state hooks, the timer reference, the pending timers of the page, the
  \<^verbatim>\<open>voiceAPI\<close> singleton with the browser's media objects, and the effects of the
  transcription calls so far.
\<close>

record form =
  voiceState :: VoiceRecognitionState
  currentField :: "field option"
  formData :: "field \<Rightarrow> string"
  preferredVoiceService :: service
  recordingTimeoutRef :: "nat option"
  timers :: "timer list"
  next_timer :: nat
  voiceAPI :: capture
  effects :: "event list"

text \<open>
  What the outside answers while a handler runs: the browser to the permission probe and to
  the start of a recording, the recorder when it is stopped, the network, and the engine's
  \<^verbatim>\<open>Math.round(confidence * 100)\<close>, which it computes in double precision.
\<close>

record io =
  io_probe :: media
  io_media :: media
  io_stop :: stop_events
  io_net :: env
  io_round :: "rat \<Rightarrow> int"

definition render :: "form \<Rightarrow> closure" where
  "render s =
     \<lparr>seen_voiceState = voiceState s, seen_currentField = currentField s,
      seen_preferredVoiceService = preferredVoiceService s\<rparr>"

text \<open>Timer ids are positive, as in a browser.\<close>

definition setTimeout :: "callback \<Rightarrow> nat \<Rightarrow> form \<Rightarrow> nat \<times> form" where
  "setTimeout cb d s =
     (next_timer s,
      s\<lparr>timers := timers s @ [\<lparr>timer_id = next_timer s, delay = d, callback = cb\<rparr>],
        next_timer := Suc (next_timer s)\<rparr>)"

definition clearTimeout :: "nat \<Rightarrow> form \<Rightarrow> form" where
  "clearTimeout i s = s\<lparr>timers := filter (\<lambda>t. timer_id t \<noteq> i) (timers s)\<rparr>"

definition set_error :: "string \<Rightarrow> form \<Rightarrow> form" where
  "set_error msg s = s\<lparr>voiceState := (voiceState s)\<lparr>error := msg\<rparr>\<rparr>"

definition show_int :: "int \<Rightarrow> string" where
  "show_int i = (if i < 0 then ''-'' @ show_nat (nat (- i)) else show_nat (nat i))"

text \<open>The first characters of the success notice, as the bytes of the source file.\<close>

definition check_mark :: string where
  "check_mark = [CHR 0xC3, CHR 0xA2, CHR 0xC5, CHR 0x93, CHR 0xE2, CHR 0x80, CHR 0x9C]"

definition success_notice :: "(rat \<Rightarrow> int) \<Rightarrow> VoiceTranscriptionResult \<Rightarrow> string" where
  "success_notice rnd result =
     check_mark @ '' Transcribed successfully'' @
     (case res_confidence result of
        None \<Rightarrow> []
      | Some c \<Rightarrow> if c = 0 then [] else '' ('' @ show_int (rnd c) @ ''% confidence)'')"

text \<open>The \<^verbatim>\<open>finally\<close> block of \<^verbatim>\<open>stopListening\<close>.\<close>

definition finally_stop :: "form \<Rightarrow> form" where
  "finally_stop s =
     (let s1 = s\<lparr>currentField := None\<rparr> in
      case recordingTimeoutRef s1 of
        None \<Rightarrow> s1
      | Some i \<Rightarrow> if i \<noteq> 0 then clearTimeout i s1 else s1)"

text \<open>
  \<^verbatim>\<open>stopListening\<close>, run to its end. The first component tells whether its promise
  settles: it does not when \<^verbatim>\<open>voiceAPI.stopRecording()\<close> never settles.
\<close>

definition stopListening :: "io \<Rightarrow> closure \<Rightarrow> form \<Rightarrow> bool \<times> form" where
  "stopListening io c s =
     (case seen_currentField c of
        None \<Rightarrow> (True, s)
      | Some f \<Rightarrow>
          if \<not> isListening (seen_voiceState c) then (True, s)
          else
            let s1 = set_error ''Processing audio...'' s;
                (p, cap) = stopRecording (io_stop io) (voiceAPI s1);
                s2 = s1\<lparr>voiceAPI := cap\<rparr>
            in case p of
                 Pending \<Rightarrow> (False, s2)
               | Rejected e \<Rightarrow>
                   (True,
                    finally_stop
                      (s2\<lparr>voiceState := (voiceState s2)
                           \<lparr>isListening := False,
                            error := or_else (Some (err_message e))
                                       ''Failed to process voice recording''\<rparr>\<rparr>))
               | Resolved audioBlob \<Rightarrow>
                   (let s3 = s2\<lparr>voiceState := (voiceState s2)
                               \<lparr>isListening := False, error := ''Transcribing audio...''\<rparr>\<rparr>;
                        (ev, result) =
                          transcribe (io_net io) audioBlob (seen_preferredVoiceService c);
                        s4 = s3\<lparr>effects := effects s3 @ ev\<rparr>
                    in (True,
                        finally_stop
                          (if truthy (res_error result) then
                             set_error (or_else (res_error result) ''Failed to transcribe audio'') s4
                           else if res_text result \<noteq> [] then
                             let currentValue = formData s4 f;
                                 newValue = currentValue @ (if currentValue \<noteq> [] then '' '' else [])
                                            @ trim (res_text result);
                                 s5 = s4\<lparr>formData := (formData s4)(f := newValue)\<rparr>;
                                 s6 = s5\<lparr>voiceState := (voiceState s5)
                                        \<lparr>transcript := res_text result,
                                         error := success_notice (io_round io) result\<rparr>\<rparr>
                             in snd (setTimeout ClearStatus 3000 s6)
                           else
                             set_error ''No speech detected. Please try speaking more clearly.''
                               s4))))"

text \<open>
  The permission step of \<^verbatim>\<open>startListening\<close>: \<open>Inl\<close> is the early return after a denial.
\<close>

definition ensure_permission :: "io \<Rightarrow> closure \<Rightarrow> form \<Rightarrow> form + form" where
  "ensure_permission io c s =
     (if \<not> hasPermission (seen_voiceState c) then
        let (granted, cap) = requestMicrophonePermission (io_probe io) (voiceAPI s);
            s1 = s\<lparr>voiceAPI := cap\<rparr>
        in if \<not> granted then
             Inl (set_error
                    ''Microphone access denied. Please allow microphone access and try again.'' s1)
           else Inr (s1\<lparr>voiceState := (voiceState s1)\<lparr>hasPermission := True, error := []\<rparr>\<rparr>)
      else Inr s)"

text \<open>The \<^verbatim>\<open>try\<close> block of \<^verbatim>\<open>startListening\<close> with its \<^verbatim>\<open>catch\<close>.\<close>

definition begin_recording :: "io \<Rightarrow> closure \<Rightarrow> field \<Rightarrow> form \<Rightarrow> form" where
  "begin_recording io c fld s =
     (let s1 = s\<lparr>currentField := Some fld,
                 voiceState := (voiceState s)
                   \<lparr>isListening := True, error := [], transcript := []\<rparr>\<rparr>;
          (r, cap) = startRecording (io_media io) (voiceAPI s1);
          s2 = s1\<lparr>voiceAPI := cap\<rparr>
      in case r of
           Inl e \<Rightarrow>
             s2\<lparr>voiceState := (voiceState s2)
                  \<lparr>isListening := False,
                   error := or_else (Some (err_message e))
                              ''Failed to start voice recording. Please try again.''\<rparr>,
                currentField := None\<rparr>
         | Inr u \<Rightarrow>
             (let (i, s3) = setTimeout (AutoStop c) 30000 s2
              in s3\<lparr>recordingTimeoutRef := Some i\<rparr>))"

definition startListening :: "io \<Rightarrow> closure \<Rightarrow> field \<Rightarrow> form \<Rightarrow> bool \<times> form" where
  "startListening io c fld s =
     (if isListening (seen_voiceState c) \<and> seen_currentField c = Some fld then
        stopListening io c s
      else
        let (settled, s0) =
              (if isListening (seen_voiceState c) \<and> seen_currentField c \<noteq> Some fld
               then stopListening io c s else (True, s))
        in if \<not> settled then (False, s0)
           else (case ensure_permission io c s0 of
                   Inl s1 \<Rightarrow> (True, s1)
                 | Inr s1 \<Rightarrow> (True, begin_recording io c fld s1)))"

text \<open>
  A pending timer fires: it leaves the list and its callback runs. The callback of the
  thirty-second timer is
  \<^verbatim>\<open>async () => { if (voiceState.isListening) { await stopListening(); } }\<close>.
\<close>

definition run_callback :: "io \<Rightarrow> callback \<Rightarrow> form \<Rightarrow> form" where
  "run_callback io cb s =
     (case cb of
        AutoStop c \<Rightarrow> if isListening (seen_voiceState c) then snd (stopListening io c s) else s
      | ClearStatus \<Rightarrow> set_error [] s)"

definition fire :: "io \<Rightarrow> nat \<Rightarrow> form \<Rightarrow> form" where
  "fire io i s =
     (case find (\<lambda>t. timer_id t = i) (timers s) of
        None \<Rightarrow> s
      | Some t \<Rightarrow> run_callback io (callback t) (clearTimeout i s))"

text \<open>The user acts through the handlers of the latest render.\<close>

definition click_mic :: "io \<Rightarrow> field \<Rightarrow> form \<Rightarrow> form" where
  "click_mic io fld s = snd (startListening io (render s) fld s)"

definition click_stop :: "io \<Rightarrow> form \<Rightarrow> form" where
  "click_stop io s = snd (stopListening io (render s) s)"

subsection \<open>The status line of the form\<close>

text \<open>
  The view shows \<^verbatim>\<open>voiceState.error\<close> when it is not empty: as a success when it contains
  the check mark, as progress when it contains "Processing" or "Transcribing", and as an
  error otherwise.
\<close>

fun str_includes :: "string \<Rightarrow> string \<Rightarrow> bool" where
  "str_includes [] w = (w = [])"
| "str_includes (c # s) w = (starts_with w (c # s) \<or> str_includes s w)"

datatype banner = NoBanner | SuccessBanner | ProgressBanner | ErrorBanner

definition status_banner :: "string \<Rightarrow> banner" where
  "status_banner e =
     (if e = [] then NoBanner
      else if str_includes e check_mark then SuccessBanner
      else if str_includes e ''Processing'' \<or> str_includes e ''Transcribing'' then ProgressBanner
      else ErrorBanner)"

section \<open>Voice input of the triage chat (\<^verbatim>\<open>TriageChatbot\<close>)\<close>

text \<open>
  The chat has one text input. Its handlers see \<^verbatim>\<open>isListening\<close> as it was at their
  render; its timers all run \<^verbatim>\<open>setSpeechError('')\<close>, so the model keeps their delays.
  \<^verbatim>\<open>voiceAPI.transcribe(audioBlob)\<close> is called without a preferred service, which is then
  OpenAI.
\<close>

record chatbot =
  inputText :: string
  tc_isListening :: bool
  speechError :: string
  hasVoicePermission :: bool
  tc_timers :: "nat list"
  tc_voiceAPI :: capture
  tc_effects :: "event list"

definition clear_later :: "chatbot \<Rightarrow> chatbot" where
  "clear_later s = s\<lparr>tc_timers := tc_timers s @ [5000]\<rparr>"

definition chatbot_stopListening :: "io \<Rightarrow> bool \<Rightarrow> chatbot \<Rightarrow> bool \<times> chatbot" where
  "chatbot_stopListening io seen_isListening s =
     (if \<not> seen_isListening then (True, s)
      else
        let s1 = s\<lparr>speechError := ''Processing audio...''\<rparr>;
            (p, cap) = stopRecording (io_stop io) (tc_voiceAPI s1);
            s2 = s1\<lparr>tc_voiceAPI := cap\<rparr>
        in case p of
             Pending \<Rightarrow> (False, s2)
           | Rejected e \<Rightarrow>
               (True,
                (clear_later
                   (s2\<lparr>speechError := ''Failed to process voice input. Please try again.''\<rparr>))
                  \<lparr>tc_isListening := False\<rparr>)
           | Resolved audioBlob \<Rightarrow>
               (let s3 = s2\<lparr>speechError := ''Transcribing audio...''\<rparr>;
                    (ev, result) = transcribe (io_net io) audioBlob OpenAI;
                    s4 = s3\<lparr>tc_effects := tc_effects s3 @ ev\<rparr>
                in (True,
                    (if truthy (res_error result) then
                       clear_later (s4\<lparr>speechError := or_else (res_error result) []\<rparr>)
                     else if res_text result \<noteq> [] then
                       s4\<lparr>inputText := res_text result, speechError := []\<rparr>
                     else
                       clear_later
                         (s4\<lparr>speechError :=
                               ''No speech detected. Please try speaking more clearly.''\<rparr>))
                      \<lparr>tc_isListening := False\<rparr>)))"

section \<open>Invariant of the audio capture\<close>

text \<open>
  Every recorder records a stream that exists; \<open>mediaRecorder\<close> refers to a recorder that
  exists; while \<open>isRecording\<close> holds, the current recorder is recording and every track of
  its stream is live; a recorder that is recording is the current one, with the flag set;
  and no track has been stopped more than once.
\<close>

definition inv_streams :: "capture \<Rightarrow> bool" where
  "inv_streams s \<longleftrightarrow> (\<forall>rec\<in>set (recorders s). rec_stream rec < length (streams s))"

definition inv_ref :: "capture \<Rightarrow> bool" where
  "inv_ref s \<longleftrightarrow> (\<forall>r. mediaRecorder s = Some r \<longrightarrow> r < length (recorders s))"

definition inv_open :: "capture \<Rightarrow> bool" where
  "inv_open s \<longleftrightarrow>
     (isRecording s \<longrightarrow>
        (\<exists>r. mediaRecorder s = Some r \<and> rec_state (recorders s ! r) = Recording \<and>
             (\<forall>t\<in>set (streams s ! rec_stream (recorders s ! r)). t = 0)))"

definition inv_single :: "capture \<Rightarrow> bool" where
  "inv_single s \<longleftrightarrow>
     (\<forall>r<length (recorders s).
        rec_state (recorders s ! r) = Recording \<longrightarrow> isRecording s \<and> mediaRecorder s = Some r)"

definition inv_once :: "capture \<Rightarrow> bool" where
  "inv_once s \<longleftrightarrow> (\<forall>ts\<in>set (streams s). \<forall>t\<in>set ts. t \<le> 1)"

definition capture_inv :: "capture \<Rightarrow> bool" where
  "capture_inv s \<longleftrightarrow> inv_streams s \<and> inv_ref s \<and> inv_open s \<and> inv_single s \<and> inv_once s"

text \<open>The state after a successful \<open>startRecording\<close>, and after the recorder has stopped.\<close>

definition started :: "media \<Rightarrow> nat \<Rightarrow> capture \<Rightarrow> capture" where
  "started m n s =
     s\<lparr>streams := streams s @ [replicate n 0],
       recorders := recorders s @
         [\<lparr>rec_stream = length (streams s), mimeType = choose_mimeType (isTypeSupported m),
           rec_state = Recording\<rparr>],
       mediaRecorder := Some (length (recorders s)), audioChunks := [], isRecording := True\<rparr>"

definition stopped :: "stop_events \<Rightarrow> nat \<Rightarrow> capture \<Rightarrow> capture" where
  "stopped ev r s =
     s\<lparr>recorders := (recorders s)[r := (recorders s ! r)\<lparr>rec_state := Inactive\<rparr>],
       audioChunks := audioChunks (ondataavailable (final_chunk ev) s),
       isRecording := False,
       streams := (streams s)[rec_stream (recorders s ! r) :=
                    map Suc (streams s ! rec_stream (recorders s ! r))]\<rparr>"

section \<open>Names used in the statements\<close>

text \<open>Names used to state the properties of \<open>transcribe\<close>.\<close>

definition fallback_log :: "service \<Rightarrow> string" where
  "fallback_log p = (case p of OpenAI \<Rightarrow> ''OpenAI failed, trying Gemini...''
                              | Gemini \<Rightarrow> ''Gemini failed, trying OpenAI...'')"

text \<open>The test \<^verbatim>\<open>result.error\<close> of \<open>transcribe\<close> and of its callers.\<close>

definition failed :: "VoiceTranscriptionResult \<Rightarrow> bool" where
  "failed r = truthy (res_error r)"

definition configured :: "service \<Rightarrow> env \<Rightarrow> bool" where
  "configured p e =
     truthy (case p of OpenAI \<Rightarrow> openai_apiKey (config e) | Gemini \<Rightarrow> gemini_apiKey (config e))"

definition not_configured_message :: "service \<Rightarrow> string" where
  "not_configured_message p =
     (case p of OpenAI \<Rightarrow> openai_not_configured | Gemini \<Rightarrow> gemini_not_configured)"

definition service_name :: "service \<Rightarrow> string" where
  "service_name p = (case p of OpenAI \<Rightarrow> ''OpenAI'' | Gemini \<Rightarrow> ''Gemini'')"

definition request_to :: "service \<Rightarrow> http_request \<Rightarrow> bool" where
  "request_to p req =
     (case p of
        OpenAI \<Rightarrow> req_url req = openai_endpoint
      | Gemini \<Rightarrow> take (length gemini_endpoint) (req_url req) = gemini_endpoint)"

section \<open>Concrete inputs\<close>

definition blob0 :: blob where
  "blob0 = \<lparr>blob_data = [26, 69, 223, 163], blob_type = ''audio/webm;codecs=opus''\<rparr>"

definition keys_both :: VOICE_API_CONFIG where
  "keys_both = \<lparr>openai_apiKey = Some ''sk-test'', gemini_apiKey = Some ''g-test''\<rparr>"

definition ok_response :: "json_object \<Rightarrow> fetch_outcome" where
  "ok_response d =
     FetchResponds \<lparr>resp_ok = True, resp_status = 200, resp_statusText = ''OK'',
                    resp_body = JsonObject d\<rparr>"

definition http_500 :: fetch_outcome where
  "http_500 =
     FetchResponds \<lparr>resp_ok = False, resp_status = 500,
                    resp_statusText = ''Internal Server Error'',
                    resp_body = NotJson ''Unexpected token <''\<rparr>"

definition fever_body :: json_object where
  "fever_body =
     \<lparr>error_message = None, body_text = None,
      results = Some [\<lparr>alternatives =
        Some [\<lparr>alt_transcript = Some ''fever for two days'',
               alt_confidence = Some (87 / 100)\<rparr>]\<rparr>]\<rparr>"

text \<open>The first service answers 500, the second a transcript.\<close>

definition env_500_then_fever :: env where
  "env_500_then_fever =
     \<lparr>config = keys_both,
      fetch = (\<lambda>req. if req_url req = openai_endpoint then http_500 else ok_response fever_body),
      spread_limit = None\<rparr>"

text \<open>Every request is answered 500.\<close>

definition env_all_500 :: env where
  "env_all_500 = \<lparr>config = keys_both, fetch = (\<lambda>req. http_500), spread_limit = None\<rparr>"

text \<open>No OpenAI key; the speech service answers a transcript.\<close>

definition env_no_openai_key :: env where
  "env_no_openai_key =
     \<lparr>config = \<lparr>openai_apiKey = None, gemini_apiKey = Some ''g-test''\<rparr>,
      fetch = (\<lambda>req. ok_response fever_body), spread_limit = None\<rparr>"

text \<open>The speech service answers 200 with \<^verbatim>\<open>{"results": []}\<close>; OpenAI answers 500.\<close>

definition empty_results_body :: json_object where
  "empty_results_body = \<lparr>error_message = None, body_text = None, results = Some []\<rparr>"

definition env_empty_results :: env where
  "env_empty_results =
     \<lparr>config = keys_both,
      fetch = (\<lambda>req. if req_url req = openai_endpoint then http_500
                     else ok_response empty_results_body),
      spread_limit = None\<rparr>"

text \<open>OpenAI answers 200 with \<^verbatim>\<open>{"text": ""}\<close>: nothing was said.\<close>

definition silent_body :: json_object where
  "silent_body = \<lparr>error_message = None, body_text = Some [], results = None\<rparr>"

definition env_silence :: env where
  "env_silence =
     \<lparr>config = keys_both, fetch = (\<lambda>req. ok_response silent_body), spread_limit = None\<rparr>"

text \<open>A relay request with neither field, and a model that answers.\<close>

definition chat_empty :: chat_request where
  "chat_empty = \<lparr>message = None, audioBase64 = None\<rparr>"

definition generate_hello :: "generate_request \<Rightarrow> generate_outcome" where
  "generate_hello g = GenerateAnswers (Some ''  Hello. '')"

text \<open>A browser that grants a one-track stream and supports every type.\<close>

definition media_ok :: media where
  "media_ok =
     \<lparr>getUserMedia = GumGrants 1, isTypeSupported = (\<lambda>ty. True),
      notSupported = JsError ''NotSupportedError'' ''mimeType is not supported''\<rparr>"

definition chunk0 :: blob where
  "chunk0 = \<lparr>blob_data = [26, 69], blob_type = []\<rparr>"

definition chunk1 :: blob where
  "chunk1 = \<lparr>blob_data = [223, 163], blob_type = []\<rparr>"

definition invalid_state :: js_error where
  "invalid_state = JsError ''InvalidStateError'' ''The MediaRecorder is inactive''"

definition stop_ok :: stop_events where
  "stop_ok = \<lparr>final_chunk = chunk1, error_event = None, stop_inactive = None\<rparr>"

definition stop_ok_throwing :: stop_events where
  "stop_ok_throwing = \<lparr>final_chunk = chunk1, error_event = None, stop_inactive = Some invalid_state\<rparr>"

text \<open>
  The form after its first render with the microphone permission granted, the chief
  complaint already holding some text.
\<close>

definition form_idle :: form where
  "form_idle =
     \<lparr>voiceState = \<lparr>isSupported = True, isListening = False, hasPermission = True,
                     error = [], transcript = []\<rparr>,
      currentField = None,
      formData = (\<lambda>f. [])(chiefComplaint := ''cough''),
      preferredVoiceService = OpenAI,
      recordingTimeoutRef = None, timers = [], next_timer = 1,
      voiceAPI = initial_capture\<lparr>streams := [[1]]\<rparr>,
      effects = []\<rparr>"

definition round_half_up :: "rat \<Rightarrow> int" where
  "round_half_up c = \<lfloor>c * 100 + 1 / 2\<rfloor>"

definition io0 :: io where
  "io0 = \<lparr>io_probe = media_ok, io_media = media_ok, io_stop = stop_ok,
           io_net = env_500_then_fever, io_round = round_half_up\<rparr>"

text \<open>The user has clicked the microphone of the chief complaint; the form has rendered.\<close>

definition form_recording :: form where
  "form_recording = click_mic io0 chiefComplaint form_idle"

text \<open>The relay service after one start, and after the stop that follows.\<close>

definition relay_recording :: capture where
  "relay_recording = snd (startRecording_relay media_ok initial_capture)"

definition relay_stopped :: capture where
  "relay_stopped = snd (stopRecording_relay stop_ok (ondataavailable chunk0 relay_recording))"

text \<open>The sample of that recording, and the result the second service gives for it.\<close>

definition recorded_blob :: blob where
  "recorded_blob = \<lparr>blob_data = [223, 163], blob_type = ''audio/webm;codecs=opus''\<rparr>"

definition fever_result :: VoiceTranscriptionResult where
  "fever_result =
     \<lparr>res_text = ''fever for two days'', res_confidence = Some (87 / 100), res_error = None\<rparr>"

text \<open>
  The chat while it records, with some text typed already.
\<close>

definition chatbot_typing :: chatbot where
  "chatbot_typing =
     \<lparr>inputText = ''I have a'', tc_isListening = True, speechError = [],
      hasVoicePermission = True, tc_timers = [], tc_voiceAPI = voiceAPI form_recording,
      tc_effects = []\<rparr>"

text \<open>
  While the chief complaint is recorded, the user clicks the microphone of the allergies:
  the first recording is stopped and transcribed, the second starts. Then the user says
  "penicillin" and the thirty-second timer of the second recording fires.
\<close>

definition form_switched :: form where
  "form_switched = click_mic io0 allergies form_recording"

definition penicillin_body :: json_object where
  "penicillin_body = \<lparr>error_message = None, body_text = Some ''penicillin'', results = None\<rparr>"

definition io1 :: io where
  "io1 = io0\<lparr>io_net := \<lparr>config = keys_both, fetch = (\<lambda>req. ok_response penicillin_body),
                           spread_limit = None\<rparr>\<rparr>"

text \<open>
  The states this scenario passes through: the service after the first stop, the form after
  the first stop, what the handlers of the render of \<open>form_recording\<close> see, the service
  during and after the second recording, and the result for "penicillin".
\<close>

definition capture_stopped :: capture where
  "capture_stopped =
     \<lparr>streams = [[1], [1]],
      recorders = [\<lparr>rec_stream = 1, mimeType = ''audio/webm;codecs=opus'',
                    rec_state = Inactive\<rparr>],
      mediaRecorder = Some 0, audioChunks = [chunk1], isRecording = False\<rparr>"

definition form_after_first :: form where
  "form_after_first =
     \<lparr>voiceState = \<lparr>isSupported = True, isListening = False, hasPermission = True,
                     error = check_mark @ '' Transcribed successfully (87% confidence)'',
                     transcript = ''fever for two days''\<rparr>,
      currentField = None,
      formData = (\<lambda>f. [])(chiefComplaint := ''cough fever for two days''),
      preferredVoiceService = OpenAI,
      recordingTimeoutRef = Some 1,
      timers = [\<lparr>timer_id = 2, delay = 3000, callback = ClearStatus\<rparr>],
      next_timer = 3,
      voiceAPI = capture_stopped,
      effects = fst (transcribe env_500_then_fever recorded_blob OpenAI)\<rparr>"

definition stale_closure :: closure where
  "stale_closure =
     \<lparr>seen_voiceState = \<lparr>isSupported = True, isListening = True, hasPermission = True,
                          error = [], transcript = []\<rparr>,
      seen_currentField = Some chiefComplaint,
      seen_preferredVoiceService = OpenAI\<rparr>"

definition capture_second :: capture where
  "capture_second =
     \<lparr>streams = [[1], [1], [0]],
      recorders = [\<lparr>rec_stream = 1, mimeType = ''audio/webm;codecs=opus'',
                    rec_state = Inactive\<rparr>,
                   \<lparr>rec_stream = 2, mimeType = ''audio/webm;codecs=opus'',
                    rec_state = Recording\<rparr>],
      mediaRecorder = Some 1, audioChunks = [], isRecording = True\<rparr>"

definition capture_second_stopped :: capture where
  "capture_second_stopped =
     \<lparr>streams = [[1], [1], [1]],
      recorders = [\<lparr>rec_stream = 1, mimeType = ''audio/webm;codecs=opus'',
                    rec_state = Inactive\<rparr>,
                   \<lparr>rec_stream = 2, mimeType = ''audio/webm;codecs=opus'',
                    rec_state = Inactive\<rparr>],
      mediaRecorder = Some 1, audioChunks = [chunk1], isRecording = False\<rparr>"

definition penicillin_result :: VoiceTranscriptionResult where
  "penicillin_result =
     \<lparr>res_text = ''penicillin'', res_confidence = Some 1, res_error = None\<rparr>"

section \<open>Properties of the transcription client\<close>

lemmas client_defs = adapter_def other_def transcribeWithOpenAI_def transcribeWithGemini_def
  openai_try_def gemini_try_def gemini_data_def not_ok_error_def api_error_def
  empty_object_def failure_def failed_def truthy_def or_else_def spread_fails_def
  openai_request_def gemini_request_def openai_endpoint_def gemini_endpoint_def
  configured_def not_configured_message_def request_to_def fallback_log_def Let_def

lemmas input_defs = blob0_def keys_both_def ok_response_def http_500_def fever_body_def
  env_500_then_fever_def env_all_500_def env_no_openai_key_def empty_results_body_def
  env_empty_results_def silent_body_def env_silence_def

lemma show_500: "show_nat 500 = ''500''"
  by (simp add: show_nat.simps [of 500] show_nat.simps [of 50] show_nat.simps [of 5] digit_char_def)


lemma transcribe_unfold:
  "transcribe e b p =
     (if \<not> failed (snd (adapter p e b)) then adapter p e b
      else (fst (adapter p e b) @ [ConsoleLog (fallback_log p)] @ fst (adapter (other p) e b),
            snd (adapter (other p) e b)))"
  by (cases p) (simp_all add: transcribe_def adapter_def other_def fallback_log_def failed_def
      split: prod.splits)

lemma failed_failure: "failed (failure m) = (m \<noteq> [])"
  by (simp add: failed_def failure_def truthy_def)

lemma or_else_nonempty: "d \<noteq> [] \<Longrightarrow> or_else v d \<noteq> []"
  by (simp add: or_else_def split: option.splits)

lemma gemini_data_cases:
  "gemini_data d = failure gemini_no_results \<or> res_error (gemini_data d) = None"
  by (simp add: gemini_data_def split: option.splits list.splits)

lemma openai_not_configured_nonempty: "openai_not_configured \<noteq> []"
  by (simp add: openai_not_configured_def)

lemma gemini_not_configured_nonempty: "gemini_not_configured \<noteq> []"
  by (simp add: gemini_not_configured_def)

lemma gemini_no_results_nonempty: "gemini_no_results \<noteq> []"
  by (simp add: gemini_no_results_def)

lemma failed_no_error: "res_error r = None \<Longrightarrow> \<not> failed r"
  by (simp add: failed_def truthy_def)

lemma openai_try_Returns: "openai_try out = Returns r \<Longrightarrow> res_error r = None"
  by (auto simp: openai_try_def split: fetch_outcome.splits if_splits json_body.splits)

lemma gemini_try_Returns:
  "gemini_try out = Returns r \<Longrightarrow> r = failure gemini_no_results \<or> res_error r = None"
  using gemini_data_cases
  by (fastforce simp: gemini_try_def split: fetch_outcome.splits if_splits json_body.splits)

text \<open>A result of an adapter that carries an error is built by \<open>failure\<close>: its text is empty.\<close>

lemma openai_failed_is_failure:
  assumes "failed (snd (transcribeWithOpenAI e b))"
  shows "\<exists>m. m \<noteq> [] \<and> snd (transcribeWithOpenAI e b) = failure m"
proof (cases "truthy (openai_apiKey (config e))")
  case False
  then show ?thesis
    using openai_not_configured_nonempty by (auto simp: transcribeWithOpenAI_def)
next
  case True
  show ?thesis
  proof (cases "openai_try (fetch e (openai_request (or_else (openai_apiKey (config e)) []) b))")
    case (Throws m)
    have "or_else (Some m) ''Failed to transcribe audio with OpenAI'' \<noteq> []"
      by (rule or_else_nonempty) simp
    with True Throws show ?thesis
      by (auto simp: transcribeWithOpenAI_def Let_def)
  next
    case (Returns r)
    then have "\<not> failed r" using openai_try_Returns failed_no_error by blast
    with True Returns assms show ?thesis
      by (simp add: transcribeWithOpenAI_def Let_def)
  qed
qed

lemma gemini_failed_is_failure:
  assumes "failed (snd (transcribeWithGemini e b))"
  shows "\<exists>m. m \<noteq> [] \<and> snd (transcribeWithGemini e b) = failure m"
proof (cases "truthy (gemini_apiKey (config e))")
  case False
  then show ?thesis
    using gemini_not_configured_nonempty by (auto simp: transcribeWithGemini_def)
next
  case True
  show ?thesis
  proof (cases "spread_fails e b")
    case sf: True
    with True show ?thesis by (auto simp: transcribeWithGemini_def)
  next
    case sf: False
    show ?thesis
    proof (cases "gemini_try (fetch e (gemini_request (or_else (gemini_apiKey (config e)) []) b))")
      case (Throws m)
      have "or_else (Some m) ''Failed to transcribe audio with Gemini'' \<noteq> []"
        by (rule or_else_nonempty) simp
      with True sf Throws show ?thesis
        by (auto simp: transcribeWithGemini_def Let_def)
    next
      case (Returns r)
      have eq: "snd (transcribeWithGemini e b) = r"
        using True sf Returns by (simp add: transcribeWithGemini_def Let_def)
      from Returns have "r = failure gemini_no_results \<or> res_error r = None"
        by (rule gemini_try_Returns)
      then show ?thesis
      proof
        assume "r = failure gemini_no_results"
        with eq gemini_no_results_nonempty show ?thesis by auto
      next
        assume "res_error r = None"
        then have "\<not> failed r" by (rule failed_no_error)
        with eq assms show ?thesis by simp
      qed
    qed
  qed
qed

lemma adapter_failed_is_failure:
  "failed (snd (adapter p e b)) \<Longrightarrow> \<exists>m. m \<noteq> [] \<and> snd (adapter p e b) = failure m"
  by (cases p) (simp_all add: adapter_def openai_failed_is_failure gemini_failed_is_failure)

text \<open>
  C1. When the adapter of the preferred service returns a result that carries an error,
  \<open>transcribe\<close> returns exactly the result of the adapter of the other service, and the
  effects are those of the preferred adapter, the fallback log line, then those of the
  other adapter, in this order.
\<close>

theorem transcribe_fallback_returns_alternate:
  assumes "failed (snd (adapter p e b))"
  shows "snd (transcribe e b p) = snd (adapter (other p) e b) \<and>
         fst (transcribe e b p) =
           fst (adapter p e b) @ [ConsoleLog (fallback_log p)] @ fst (adapter (other p) e b)"
  using assms by (simp add: transcribe_unfold)

theorem transcribe_fallback_returns_alternate_witness:
  "failed (snd (adapter OpenAI env_500_then_fever blob0)) \<and>
   snd (adapter OpenAI env_500_then_fever blob0) =
     failure ''OpenAI API error: 500 - Internal Server Error'' \<and>
   snd (transcribe env_500_then_fever blob0 OpenAI) =
     \<lparr>res_text = ''fever for two days'', res_confidence = Some (87 / 100), res_error = None\<rparr>"
proof -
  have h: "failed (snd (adapter OpenAI env_500_then_fever blob0))"
    by (simp add: client_defs input_defs)
  have a: "snd (adapter OpenAI env_500_then_fever blob0) =
      failure ''OpenAI API error: 500 - Internal Server Error''"
    by (simp add: client_defs input_defs show_500)
  have g: "snd (adapter (other OpenAI) env_500_then_fever blob0) =
      \<lparr>res_text = ''fever for two days'', res_confidence = Some (87 / 100), res_error = None\<rparr>"
    by (simp add: client_defs input_defs)
  from transcribe_fallback_returns_alternate [OF h] h a g show ?thesis by simp
qed

text \<open>
  C2. When the adapters of both services return results that carry an error, the result
  of \<open>transcribe\<close> has the empty text and carries the error message of the service tried
  last. The result type has no separate classification: a result of \<open>transcribe\<close> carries
  an error exactly when both services failed (\<open>transcribe_failed_iff\<close>).
\<close>

theorem transcribe_both_fail:
  assumes "failed (snd (adapter p e b))" and "failed (snd (adapter (other p) e b))"
  shows "res_text (snd (transcribe e b p)) = [] \<and>
         failed (snd (transcribe e b p)) \<and>
         res_error (snd (transcribe e b p)) = res_error (snd (adapter (other p) e b))"
proof -
  from assms(2) obtain m where "snd (adapter (other p) e b) = failure m"
    using adapter_failed_is_failure by blast
  then have "res_text (snd (adapter (other p) e b)) = []"
    by (simp add: failure_def)
  with assms show ?thesis by (simp add: transcribe_unfold)
qed

theorem transcribe_both_fail_witness:
  "failed (snd (adapter OpenAI env_all_500 blob0)) \<and>
   failed (snd (adapter (other OpenAI) env_all_500 blob0)) \<and>
   res_text (snd (transcribe env_all_500 blob0 OpenAI)) = [] \<and>
   res_error (snd (transcribe env_all_500 blob0 OpenAI)) =
     Some ''Gemini API error: 500 - Internal Server Error''"
proof -
  have h1: "failed (snd (adapter OpenAI env_all_500 blob0))"
    by (simp add: client_defs input_defs)
  have h2: "failed (snd (adapter (other OpenAI) env_all_500 blob0))"
    by (simp add: client_defs input_defs)
  have m: "res_error (snd (adapter (other OpenAI) env_all_500 blob0)) =
      Some ''Gemini API error: 500 - Internal Server Error''"
    by (simp add: client_defs input_defs show_500)
  from transcribe_both_fail [OF h1 h2] h1 h2 m show ?thesis by simp
qed

lemma transcribe_failed_iff:
  "failed (snd (transcribe e b p)) \<longleftrightarrow>
     failed (snd (adapter p e b)) \<and> failed (snd (adapter (other p) e b))"
  by (simp add: transcribe_unfold)

lemma adapter_unconfigured:
  "\<not> configured p e \<Longrightarrow> adapter p e b = ([], failure (not_configured_message p))"
  by (cases p) (simp_all add: adapter_def configured_def not_configured_message_def
      transcribeWithOpenAI_def transcribeWithGemini_def)

lemma not_configured_message_nonempty: "not_configured_message p \<noteq> []"
  by (cases p) (simp_all add: not_configured_message_def openai_not_configured_def
      gemini_not_configured_def)

lemma openai_fetch_to:
  "Fetch req \<in> set (fst (transcribeWithOpenAI e b)) \<Longrightarrow> req_url req = openai_endpoint"
  by (auto simp: transcribeWithOpenAI_def Let_def openai_request_def
      split: if_splits attempt.splits)

lemma gemini_fetch_to:
  "Fetch req \<in> set (fst (transcribeWithGemini e b)) \<Longrightarrow>
     take (length gemini_endpoint) (req_url req) = gemini_endpoint"
  by (auto simp: transcribeWithGemini_def Let_def gemini_request_def
      split: if_splits attempt.splits)

lemma adapter_fetch_to:
  "Fetch req \<in> set (fst (adapter q e b)) \<Longrightarrow> request_to q req"
  by (cases q) (simp_all add: adapter_def request_to_def openai_fetch_to gemini_fetch_to)

lemma endpoints_differ: "take (length gemini_endpoint) openai_endpoint \<noteq> gemini_endpoint"
  by (simp add: gemini_endpoint_def openai_endpoint_def)

lemma request_to_one: "request_to q req \<Longrightarrow> \<not> request_to (other q) req"
  using endpoints_differ by (cases q) (auto simp: request_to_def other_def)

lemma other_other: "other (other p) = p"
  by (cases p) (simp_all add: other_def)

lemma transcribe_fetch_from:
  "Fetch req \<in> set (fst (transcribe e b q)) \<Longrightarrow>
     Fetch req \<in> set (fst (adapter q e b)) \<or> Fetch req \<in> set (fst (adapter (other q) e b))"
  by (auto simp: transcribe_unfold split: if_splits)

lemma not_ok_error_distinct:
  "not_ok_error (service_name q) resp \<noteq> not_configured_message p"
  by (cases q; cases p; cases "resp_body resp")
    (simp_all add: not_ok_error_def api_error_def service_name_def not_configured_message_def
      openai_not_configured_def gemini_not_configured_def null_read_message_def)

text \<open>
  C5. A service whose key is absent (undefined or empty) fails at once with its own
  "not configured" message and issues no request; \<open>transcribe\<close> then goes on to the other
  service, and no request of the whole call goes to the unconfigured service. The message
  differs from every failure message the adapters build themselves (HTTP status failures,
  empty results, the default texts); messages of errors thrown by the runtime are whatever
  the runtime reports.
\<close>

theorem missing_credential_falls_back_without_request:
  assumes "\<not> configured p e"
  shows "adapter p e b = ([], failure (not_configured_message p)) \<and>
         failed (failure (not_configured_message p)) \<and>
         transcribe e b p =
           (ConsoleLog (fallback_log p) # fst (adapter (other p) e b),
            snd (adapter (other p) e b)) \<and>
         (\<forall>q req. Fetch req \<in> set (fst (transcribe e b q)) \<longrightarrow> \<not> request_to p req) \<and>
         (\<forall>q resp. not_ok_error (service_name q) resp \<noteq> not_configured_message p) \<and>
         not_configured_message p \<notin>
           {gemini_no_results, ''Failed to transcribe audio with OpenAI'',
            ''Failed to transcribe audio with Gemini'', ''Maximum call stack size exceeded''}"
proof -
  have un: "adapter p e b = ([], failure (not_configured_message p))"
    using assms by (rule adapter_unconfigured)
  have fl: "failed (failure (not_configured_message p))"
    by (simp add: failed_failure not_configured_message_nonempty)
  have tr: "transcribe e b p =
      (ConsoleLog (fallback_log p) # fst (adapter (other p) e b), snd (adapter (other p) e b))"
    using un fl by (simp add: transcribe_unfold)
  have nf: "\<not> request_to p req" if "Fetch req \<in> set (fst (transcribe e b q))" for q req
  proof -
    have "Fetch req \<in> set (fst (adapter (other p) e b))"
    proof (cases "q = p")
      case True
      with that un transcribe_fetch_from [of req e b p] show ?thesis by auto
    next
      case False
      then have qp: "other q = p" "q = other p" by (cases q; cases p; simp add: other_def)+
      with that un transcribe_fetch_from [of req e b q] show ?thesis by auto
    qed
    then have "request_to (other p) req" by (rule adapter_fetch_to)
    then show ?thesis using request_to_one [of "other p" req] by (simp add: other_other)
  qed
  have dm: "not_configured_message p \<notin>
           {gemini_no_results, ''Failed to transcribe audio with OpenAI'',
            ''Failed to transcribe audio with Gemini'', ''Maximum call stack size exceeded''}"
    by (cases p) (simp_all add: not_configured_message_def openai_not_configured_def
      gemini_not_configured_def gemini_no_results_def)
  from un fl tr nf not_ok_error_distinct dm show ?thesis by blast
qed

theorem missing_credential_falls_back_without_request_witness:
  "\<not> configured OpenAI env_no_openai_key \<and>
   adapter OpenAI env_no_openai_key blob0 = ([], failure openai_not_configured) \<and>
   transcribe env_no_openai_key blob0 OpenAI =
     ([ConsoleLog ''OpenAI failed, trying Gemini...'', Fetch (gemini_request ''g-test'' blob0)],
      \<lparr>res_text = ''fever for two days'', res_confidence = Some (87 / 100), res_error = None\<rparr>) \<and>
   Fetch (gemini_request ''g-test'' blob0) \<in> set (fst (transcribe env_no_openai_key blob0 OpenAI)) \<and>
   \<not> request_to OpenAI (gemini_request ''g-test'' blob0)"
proof -
  have h: "\<not> configured OpenAI env_no_openai_key"
    by (simp add: input_defs configured_def truthy_def)
  have g: "adapter (other OpenAI) env_no_openai_key blob0 =
      ([Fetch (gemini_request ''g-test'' blob0)],
       \<lparr>res_text = ''fever for two days'', res_confidence = Some (87 / 100), res_error = None\<rparr>)"
    by (simp add: client_defs input_defs)
  note t = missing_credential_falls_back_without_request [OF h, of blob0]
  from t g have tr: "transcribe env_no_openai_key blob0 OpenAI =
     ([ConsoleLog ''OpenAI failed, trying Gemini...'', Fetch (gemini_request ''g-test'' blob0)],
      \<lparr>res_text = ''fever for two days'', res_confidence = Some (87 / 100), res_error = None\<rparr>)"
    by (simp add: fallback_log_def)
  then have m: "Fetch (gemini_request ''g-test'' blob0) \<in>
      set (fst (transcribe env_no_openai_key blob0 OpenAI))"
    by simp
  with t have "\<not> request_to OpenAI (gemini_request ''g-test'' blob0)" by blast
  with h t tr m show ?thesis by (simp add: not_configured_message_def)
qed

text \<open>
  C8, as claimed: a 200 answer of the speech service with an empty \<^verbatim>\<open>results\<close> array
  would give a result without an error. It gives a result that carries one.
\<close>

theorem gemini_empty_results_counterexample:
  "snd (transcribeWithGemini env_empty_results blob0) =
     \<lparr>res_text = [], res_confidence = None,
      res_error = Some ''No transcription results from Gemini''\<rparr> \<and>
   res_error (snd (transcribeWithGemini env_empty_results blob0)) \<noteq> None"
  by (simp add: client_defs input_defs gemini_no_results_def)

text \<open>
  C8, amended. For every 200 answer of the speech service whose body has an empty
  \<^verbatim>\<open>results\<close> array, \<open>transcribeWithGemini\<close> returns the empty text with the error
  "No transcription results from Gemini": a failure of the service, after which
  \<open>transcribe\<close> with this service preferred returns what the other service gives.
\<close>

theorem gemini_empty_results_is_failure:
  assumes "configured Gemini e" and "\<not> spread_fails e b"
    and "fetch e (gemini_request (or_else (gemini_apiKey (config e)) []) b) = FetchResponds resp"
    and "resp_ok resp" and "resp_body resp = JsonObject data" and "results data = Some []"
  shows "transcribeWithGemini e b =
           ([Fetch (gemini_request (or_else (gemini_apiKey (config e)) []) b)],
            failure gemini_no_results) \<and>
         failed (failure gemini_no_results) \<and>
         snd (transcribe e b Gemini) = snd (transcribeWithOpenAI e b)"
proof -
  have g: "transcribeWithGemini e b =
           ([Fetch (gemini_request (or_else (gemini_apiKey (config e)) []) b)],
            failure gemini_no_results)"
    using assms
    by (simp add: transcribeWithGemini_def configured_def gemini_try_def gemini_data_def Let_def)
  have f: "failed (failure gemini_no_results)"
    by (simp add: failed_failure gemini_no_results_nonempty)
  from g f show ?thesis
    by (simp add: transcribe_unfold adapter_def other_def)
qed

theorem gemini_empty_results_is_failure_witness:
  "configured Gemini env_empty_results \<and> \<not> spread_fails env_empty_results blob0 \<and>
   fetch env_empty_results (gemini_request ''g-test'' blob0) = ok_response empty_results_body \<and>
   results empty_results_body = Some [] \<and>
   transcribeWithGemini env_empty_results blob0 =
     ([Fetch (gemini_request ''g-test'' blob0)], failure gemini_no_results) \<and>
   snd (transcribe env_empty_results blob0 Gemini) =
     failure ''OpenAI API error: 500 - Internal Server Error''"
proof -
  have k: "or_else (gemini_apiKey (config env_empty_results)) [] = ''g-test''"
    by (simp add: input_defs or_else_def)
  have h1: "configured Gemini env_empty_results"
    by (simp add: input_defs configured_def truthy_def)
  have h2: "\<not> spread_fails env_empty_results blob0"
    by (simp add: input_defs spread_fails_def)
  have h3: "fetch env_empty_results (gemini_request (or_else (gemini_apiKey (config env_empty_results)) []) blob0) =
      FetchResponds \<lparr>resp_ok = True, resp_status = 200, resp_statusText = ''OK'',
                    resp_body = JsonObject empty_results_body\<rparr>"
    by (simp add: k) (simp add: input_defs gemini_request_def gemini_endpoint_def openai_endpoint_def)
  have h6: "results empty_results_body = Some []"
    by (simp add: empty_results_body_def)
  have o: "snd (transcribeWithOpenAI env_empty_results blob0) =
      failure ''OpenAI API error: 500 - Internal Server Error''"
    by (simp add: client_defs input_defs show_500)
  from gemini_empty_results_is_failure [OF h1 h2 h3 _ _ h6] h1 h2 h3 h6 k o show ?thesis
    by (simp add: ok_response_def)
qed

lemma adapter_no_console_log: "ConsoleLog s \<notin> set (fst (adapter p e b))"
  by (cases p) (auto simp: adapter_def transcribeWithOpenAI_def transcribeWithGemini_def Let_def
      split: if_splits attempt.splits)

text \<open>
  C10. When the adapter of the preferred service returns a result without an error, also
  one with the empty text, \<open>transcribe\<close> returns that result and those effects unchanged:
  the other service is not consulted and no fallback line is logged. Only the error
  decides, not the text.
\<close>

theorem transcribe_keeps_empty_success:
  assumes "\<not> failed (snd (adapter p e b))"
  shows "transcribe e b p = adapter p e b \<and>
         (\<forall>s. ConsoleLog s \<notin> set (fst (transcribe e b p)))"
  using assms adapter_no_console_log by (simp add: transcribe_unfold)

theorem transcribe_keeps_empty_success_witness:
  "\<not> failed (snd (adapter OpenAI env_silence blob0)) \<and>
   res_text (snd (adapter OpenAI env_silence blob0)) = [] \<and>
   transcribe env_silence blob0 OpenAI =
     ([Fetch (openai_request ''sk-test'' blob0)],
      \<lparr>res_text = [], res_confidence = Some 1, res_error = None\<rparr>) \<and>
   ConsoleLog ''OpenAI failed, trying Gemini...'' \<notin> set (fst (transcribe env_silence blob0 OpenAI))"
proof -
  have h: "\<not> failed (snd (adapter OpenAI env_silence blob0))"
    by (simp add: client_defs input_defs)
  have a: "adapter OpenAI env_silence blob0 =
     ([Fetch (openai_request ''sk-test'' blob0)],
      \<lparr>res_text = [], res_confidence = Some 1, res_error = None\<rparr>)"
    by (simp add: client_defs input_defs)
  from transcribe_keeps_empty_success [OF h] h a show ?thesis by simp
qed

section \<open>Properties of the audio capture\<close>

lemmas inv_defs = inv_streams_def inv_ref_def inv_open_def inv_single_def inv_once_def

lemma inv_initial: "capture_inv initial_capture"
  by (simp add: capture_inv_def inv_defs initial_capture_def)

lemma inv_audioChunks: "capture_inv (s\<lparr>audioChunks := c\<rparr>) = capture_inv s"
  by (simp add: capture_inv_def inv_defs)

lemma inv_ondataavailable: "capture_inv s \<Longrightarrow> capture_inv (ondataavailable d s)"
  by (cases "blob_size d > 0") (simp_all add: ondataavailable_def inv_audioChunks)

lemma permission_granted:
  "getUserMedia m = GumGrants n \<Longrightarrow>
   requestMicrophonePermission m s = (True, s\<lparr>streams := streams s @ [replicate n (Suc 0)]\<rparr>)"
  by (simp add: requestMicrophonePermission_def open_stream_def stop_tracks_def)

lemma permission_denied:
  "getUserMedia m = GumRejects e \<Longrightarrow> requestMicrophonePermission m s = (False, s)"
  by (simp add: requestMicrophonePermission_def)

lemma open_stream_index:
  assumes "inv_streams s" and "inv_ref s" and "mediaRecorder s = Some r"
  shows "(streams s @ [ts]) ! rec_stream (recorders s ! r) = streams s ! rec_stream (recorders s ! r)"
proof -
  from assms(2,3) have "r < length (recorders s)" by (simp add: inv_ref_def)
  then have "recorders s ! r \<in> set (recorders s)" by simp
  with assms(1) have "rec_stream (recorders s ! r) < length (streams s)"
    by (simp add: inv_streams_def)
  then show ?thesis by (simp add: nth_append)
qed

lemma inv_streams_new: "inv_streams s \<Longrightarrow> inv_streams (s\<lparr>streams := streams s @ [ts]\<rparr>)"
  by (auto simp: inv_streams_def less_SucI)

lemma inv_ref_new: "inv_ref s \<Longrightarrow> inv_ref (s\<lparr>streams := streams s @ [ts]\<rparr>)"
  by (simp add: inv_ref_def)

lemma inv_open_new:
  assumes "inv_streams s" and "inv_ref s" and "inv_open s"
  shows "inv_open (s\<lparr>streams := streams s @ [ts]\<rparr>)"
proof (cases "isRecording s")
  case False
  then show ?thesis by (simp add: inv_open_def)
next
  case True
  with assms(3) obtain r where r: "mediaRecorder s = Some r"
    "rec_state (recorders s ! r) = Recording"
    "\<forall>t\<in>set (streams s ! rec_stream (recorders s ! r)). t = 0"
    unfolding inv_open_def by blast
  from open_stream_index [OF assms(1,2) r(1)] r show ?thesis
    by (simp add: inv_open_def)
qed

lemma inv_single_new: "inv_single s \<Longrightarrow> inv_single (s\<lparr>streams := streams s @ [ts]\<rparr>)"
  by (simp add: inv_single_def)

lemma inv_once_new:
  "inv_once s \<Longrightarrow> \<forall>t\<in>set ts. t \<le> 1 \<Longrightarrow> inv_once (s\<lparr>streams := streams s @ [ts]\<rparr>)"
  by (auto simp: inv_once_def)

lemma inv_new_stream:
  "capture_inv s \<Longrightarrow> \<forall>t\<in>set ts. t \<le> 1 \<Longrightarrow> capture_inv (s\<lparr>streams := streams s @ [ts]\<rparr>)"
  by (simp add: capture_inv_def inv_streams_new inv_ref_new inv_open_new inv_single_new
      inv_once_new)

lemma inv_permission: "capture_inv s \<Longrightarrow> capture_inv (snd (requestMicrophonePermission m s))"
  by (cases "getUserMedia m") (simp_all add: permission_granted permission_denied inv_new_stream)

lemma start_already: "isRecording s \<Longrightarrow> startRecording m s = (Inl already_recording, s)"
  by (simp add: startRecording_def)

lemma start_rejected:
  "\<not> isRecording s \<Longrightarrow> getUserMedia m = GumRejects e \<Longrightarrow> startRecording m s = (Inl e, s)"
  by (simp add: startRecording_def)

lemma start_unsupported:
  "\<not> isRecording s \<Longrightarrow> getUserMedia m = GumGrants n \<Longrightarrow>
   \<not> isTypeSupported m (choose_mimeType (isTypeSupported m)) \<Longrightarrow>
   startRecording m s = (Inl (notSupported m), s\<lparr>streams := streams s @ [replicate n 0]\<rparr>)"
  by (simp add: startRecording_def open_stream_def new_MediaRecorder_def)

lemma start_ok:
  "\<not> isRecording s \<Longrightarrow> getUserMedia m = GumGrants n \<Longrightarrow>
   isTypeSupported m (choose_mimeType (isTypeSupported m)) \<Longrightarrow>
   startRecording m s = (Inr (), started m n s)"
  by (simp add: startRecording_def open_stream_def new_MediaRecorder_def set_rec_state_def
      started_def)

lemma inv_streams_started: "inv_streams s \<Longrightarrow> inv_streams (started m n s)"
  by (auto simp: inv_streams_def started_def less_SucI)

lemma inv_ref_started: "inv_ref (started m n s)"
  by (simp add: inv_ref_def started_def)

lemma inv_open_started: "inv_open (started m n s)"
  by (simp add: inv_open_def started_def)

lemma inv_single_started:
  assumes "inv_single s" and "\<not> isRecording s"
  shows "inv_single (started m n s)"
  unfolding inv_single_def
proof (intro allI impI)
  fix r
  assume lt: "r < length (recorders (started m n s))"
    and rc: "rec_state (recorders (started m n s) ! r) = Recording"
  have "r = length (recorders s)"
  proof (rule ccontr)
    assume "r \<noteq> length (recorders s)"
    with lt have old: "r < length (recorders s)" by (simp add: started_def)
    then have "recorders (started m n s) ! r = recorders s ! r"
      by (simp add: started_def nth_append)
    with rc old assms show False by (simp add: inv_single_def)
  qed
  then show "isRecording (started m n s) \<and> mediaRecorder (started m n s) = Some r"
    by (simp add: started_def)
qed

lemma inv_once_started: "inv_once s \<Longrightarrow> inv_once (started m n s)"
  by (auto simp: inv_once_def started_def)

lemma inv_started: "capture_inv s \<Longrightarrow> \<not> isRecording s \<Longrightarrow> capture_inv (started m n s)"
  by (simp add: capture_inv_def inv_streams_started inv_ref_started inv_open_started
      inv_single_started inv_once_started)

lemma zero_tracks_le: "\<forall>t\<in>set (replicate n (0::nat)). t \<le> 1"
  by simp

lemma inv_start: "capture_inv s \<Longrightarrow> capture_inv (snd (startRecording m s))"
proof (cases "isRecording s")
  case True
  assume "capture_inv s"
  with True show ?thesis by (simp add: start_already)
next
  case False
  assume i: "capture_inv s"
  show ?thesis
  proof (cases "getUserMedia m")
    case (GumRejects e)
    with False i show ?thesis by (simp add: start_rejected)
  next
    case (GumGrants n)
    show ?thesis
    proof (cases "isTypeSupported m (choose_mimeType (isTypeSupported m))")
      case True
      with False GumGrants i show ?thesis by (simp add: start_ok inv_started)
    next
      case unsup: False
      with False GumGrants i show ?thesis
        by (simp add: start_unsupported inv_new_stream zero_tracks_le)
    qed
  qed
qed

lemma stop_not_recording:
  "\<not> isRecording s \<Longrightarrow> stopRecording ev s = (Rejected not_currently_recording, s)"
  by (simp add: stopRecording_def split: option.splits)

lemma recording_state:
  assumes "capture_inv s" and "isRecording s"
  shows "\<exists>r. mediaRecorder s = Some r \<and> r < length (recorders s) \<and>
             rec_state (recorders s ! r) = Recording \<and>
             rec_stream (recorders s ! r) < length (streams s) \<and>
             (\<forall>t\<in>set (streams s ! rec_stream (recorders s ! r)). t = 0)"
proof -
  from assms obtain r where r: "mediaRecorder s = Some r"
    "rec_state (recorders s ! r) = Recording"
    "\<forall>t\<in>set (streams s ! rec_stream (recorders s ! r)). t = 0"
    unfolding capture_inv_def inv_open_def by blast
  from assms(1) r(1) have lt: "r < length (recorders s)"
    by (simp add: capture_inv_def inv_ref_def)
  then have "recorders s ! r \<in> set (recorders s)" by simp
  with assms(1) have "rec_stream (recorders s ! r) < length (streams s)"
    by (simp add: capture_inv_def inv_streams_def)
  with r lt show ?thesis by blast
qed

lemma stop_ok:
  assumes "mediaRecorder s = Some r" and "isRecording s" and "r < length (recorders s)"
    and "rec_state (recorders s ! r) = Recording"
    and "rec_stream (recorders s ! r) < length (streams s)"
  shows "stopRecording ev s =
           (case error_event ev of
              Some e \<Rightarrow> Rejected (JsError ''Error'' (''Recording error: '' @ e))
            | None \<Rightarrow> Resolved (new_Blob (audioChunks (ondataavailable (final_chunk ev) s))
                                  (mimeType (recorders s ! r))),
            stopped ev r s)"
proof (cases "blob_size (final_chunk ev) > 0")
  case True
  with assms show ?thesis
    by (simp add: stopRecording_def set_rec_state_def ondataavailable_def stop_tracks_def
        stopped_def Let_def split: option.splits)
next
  case False
  with assms show ?thesis
    by (simp add: stopRecording_def set_rec_state_def ondataavailable_def stop_tracks_def
        stopped_def Let_def split: option.splits)
qed

lemma inv_streams_stopped: "inv_streams s \<Longrightarrow> inv_streams (stopped ev r s)"
  unfolding inv_streams_def
proof
  fix x
  assume a: "\<forall>rec\<in>set (recorders s). rec_stream rec < length (streams s)"
    and x: "x \<in> set (recorders (stopped ev r s))"
  from x have "x \<in> set ((recorders s)[r := (recorders s ! r)\<lparr>rec_state := Inactive\<rparr>])"
    by (simp add: stopped_def)
  then have "x = (recorders s ! r)\<lparr>rec_state := Inactive\<rparr> \<and> r < length (recorders s) \<or>
      x \<in> set (recorders s)"
    by (cases "r < length (recorders s)") (auto dest: set_update_subsetI [OF subset_refl, THEN subsetD] simp: in_set_conv_nth nth_list_update split: if_splits)
  with a have "rec_stream x < length (streams s)" by auto
  then show "rec_stream x < length (streams (stopped ev r s))"
    by (simp add: stopped_def)
qed

lemma inv_ref_stopped: "inv_ref s \<Longrightarrow> inv_ref (stopped ev r s)"
  by (simp add: inv_ref_def stopped_def)

lemma inv_open_stopped: "inv_open (stopped ev r s)"
  by (simp add: inv_open_def stopped_def)

lemma inv_single_stopped:
  assumes "inv_single s" and "mediaRecorder s = Some r"
  shows "inv_single (stopped ev r s)"
  unfolding inv_single_def
proof (intro allI impI)
  fix q
  assume lt: "q < length (recorders (stopped ev r s))"
    and rc: "rec_state (recorders (stopped ev r s) ! q) = Recording"
  from lt have q: "q < length (recorders s)" by (simp add: stopped_def)
  have "q \<noteq> r"
  proof
    assume "q = r"
    with q rc show False by (simp add: stopped_def)
  qed
  with q rc have "rec_state (recorders s ! q) = Recording" by (simp add: stopped_def)
  with assms q have "q = r" by (simp add: inv_single_def)
  with \<open>q \<noteq> r\<close> show "isRecording (stopped ev r s) \<and> mediaRecorder (stopped ev r s) = Some q"
    by simp
qed

lemma inv_once_stopped:
  assumes "inv_once s" and "\<forall>t\<in>set (streams s ! rec_stream (recorders s ! r)). t = 0"
  shows "inv_once (stopped ev r s)"
  unfolding inv_once_def
proof (intro ballI)
  fix ts t
  assume ts: "ts \<in> set (streams (stopped ev r s))" and t: "t \<in> set ts"
  let ?i = "rec_stream (recorders s ! r)"
  from ts obtain k where k: "k < length (streams s)"
    "ts = (streams s)[?i := map Suc (streams s ! ?i)] ! k"
    by (auto simp: stopped_def in_set_conv_nth)
  show "t \<le> 1"
  proof (cases "k = ?i")
    case True
    with k have "ts = map Suc (streams s ! ?i)" by simp
    with t assms(2) show ?thesis by auto
  next
    case False
    with k have "ts = streams s ! k" by simp
    with k(1) have "ts \<in> set (streams s)" by simp
    with assms(1) t show ?thesis by (simp add: inv_once_def)
  qed
qed

lemma inv_stop: "capture_inv s \<Longrightarrow> capture_inv (snd (stopRecording ev s))"
proof (cases "isRecording s")
  case False
  assume "capture_inv s"
  with False show ?thesis by (simp add: stop_not_recording)
next
  case True
  assume i: "capture_inv s"
  from recording_state [OF i True] obtain r where r: "mediaRecorder s = Some r"
    "r < length (recorders s)" "rec_state (recorders s ! r) = Recording"
    "rec_stream (recorders s ! r) < length (streams s)"
    "\<forall>t\<in>set (streams s ! rec_stream (recorders s ! r)). t = 0"
    by blast
  have "snd (stopRecording ev s) = stopped ev r s"
    using stop_ok [OF r(1) True r(2,3,4)] by simp
  moreover from i r have "capture_inv (stopped ev r s)"
    by (simp add: capture_inv_def inv_streams_stopped inv_ref_stopped inv_open_stopped
        inv_single_stopped inv_once_stopped)
  ultimately show ?thesis by simp
qed

lemma reachable_inv: "reachable s \<Longrightarrow> capture_inv s"
  by (induction rule: reachable.induct)
    (simp_all add: inv_initial inv_permission inv_start inv_ondataavailable inv_stop)

lemmas capture_defs = startRecording_def startRecording_relay_def stopRecording_def
  stopRecording_relay_def requestMicrophonePermission_def open_stream_def stop_tracks_def
  new_MediaRecorder_def set_rec_state_def ondataavailable_def choose_mimeType_def new_Blob_def
  blob_size_def initial_capture_def open_recordings_def live_streams_def already_recording_def
  not_currently_recording_def not_recording_def Let_def

lemmas capture_inputs = media_ok_def chunk0_def chunk1_def invalid_state_def stop_ok_def
  stop_ok_throwing_def relay_recording_def relay_stopped_def

lemma relay_recording_value:
  "relay_recording =
     \<lparr>streams = [[0]],
      recorders = [\<lparr>rec_stream = 0, mimeType = ''audio/webm'', rec_state = Recording\<rparr>],
      mediaRecorder = Some 0, audioChunks = [], isRecording = True\<rparr>"
  by (simp add: capture_defs capture_inputs)

lemma relay_stopped_value:
  "relay_stopped =
     \<lparr>streams = [[1]],
      recorders = [\<lparr>rec_stream = 0, mimeType = ''audio/webm'', rec_state = Inactive\<rparr>],
      mediaRecorder = Some 0, audioChunks = [chunk0, chunk1], isRecording = False\<rparr>"
  unfolding relay_stopped_def relay_recording_value
  by (simp add: stopRecording_relay_def ondataavailable_def set_rec_state_def stop_tracks_def
      blob_size_def chunk0_def chunk1_def stop_ok_def Let_def)

text \<open>
  C3. A second \<open>startRecording\<close> while a recording is open must fail with "Already
  recording" and open no second stream. The first service does so (\<open>start_already\<close>,
  \<open>reachable_one_recording\<close>). The service that transcribes through the relay has no such
  test: started while its first recording is open, it succeeds, and two recorders record
  from two live streams.
\<close>

theorem relay_startRecording_opens_second_stream:
  "isRecording relay_recording \<and> open_recordings relay_recording = [0] \<and>
   fst (startRecording_relay media_ok relay_recording) = Inr () \<and>
   open_recordings (snd (startRecording_relay media_ok relay_recording)) = [0, 1] \<and>
   live_streams (snd (startRecording_relay media_ok relay_recording)) = [0, 1] \<and>
   fst (startRecording media_ok (snd (startRecording media_ok initial_capture))) =
     Inl already_recording \<and>
   reachable_relay (snd (startRecording_relay media_ok relay_recording))"
proof -
  have "reachable_relay relay_recording"
    unfolding relay_recording_def by (intro relay_start relay_init)
  then have "reachable_relay (snd (startRecording_relay media_ok relay_recording))"
    by (rule relay_start)
  moreover have "isRecording relay_recording \<and> open_recordings relay_recording = [0] \<and>
   fst (startRecording_relay media_ok relay_recording) = Inr () \<and>
   open_recordings (snd (startRecording_relay media_ok relay_recording)) = [0, 1] \<and>
   live_streams (snd (startRecording_relay media_ok relay_recording)) = [0, 1] \<and>
   fst (startRecording media_ok (snd (startRecording media_ok initial_capture))) =
     Inl already_recording"
    unfolding relay_recording_value
    by (simp add: capture_defs media_ok_def)
  ultimately show ?thesis by simp
qed

text \<open>
  C4. \<open>stopRecording\<close> with no recording open must fail with the "not recording" error.
  The first service does so, and a stop that resolves has stopped every track of the
  recorder's stream exactly once and returns the sample built from the chunks
  (\<open>stopRecording_releases_once\<close>). The service that transcribes through the relay only
  tests that a recorder was ever created: after a completed recording it calls
  \<^verbatim>\<open>stop()\<close> on the inactive recorder, so the call never settles or is rejected with the
  browser's own exception, not with the "not recording" error.
\<close>

theorem relay_stopRecording_after_stop_not_rejected:
  "\<not> isRecording relay_stopped \<and> open_recordings relay_stopped = [] \<and>
   stopRecording_relay stop_ok relay_stopped = (Pending, relay_stopped) \<and>
   stopRecording_relay stop_ok_throwing relay_stopped = (Rejected invalid_state, relay_stopped) \<and>
   invalid_state \<noteq> not_recording \<and>
   stopRecording stop_ok relay_stopped = (Rejected not_currently_recording, relay_stopped) \<and>
   reachable_relay relay_stopped"
proof -
  have "reachable_relay relay_stopped"
    unfolding relay_stopped_def relay_recording_def
    by (intro relay_stop relay_data relay_start relay_init)
  moreover have "\<not> isRecording relay_stopped \<and> open_recordings relay_stopped = [] \<and>
   stopRecording_relay stop_ok relay_stopped = (Pending, relay_stopped) \<and>
   stopRecording_relay stop_ok_throwing relay_stopped = (Rejected invalid_state, relay_stopped) \<and>
   invalid_state \<noteq> not_recording \<and>
   stopRecording stop_ok relay_stopped = (Rejected not_currently_recording, relay_stopped)"
    unfolding relay_stopped_value
    by (simp add: capture_defs stop_ok_def stop_ok_throwing_def invalid_state_def)
  ultimately show ?thesis by simp
qed

lemma reachable_one_recording:
  assumes "reachable s" and "r \<in> set (open_recordings s)" and "q \<in> set (open_recordings s)"
  shows "r = q"
proof -
  from assms(1) have "inv_single s" using reachable_inv by (simp add: capture_inv_def)
  with assms(2,3) have "mediaRecorder s = Some r" and "mediaRecorder s = Some q"
    by (simp_all add: open_recordings_def inv_single_def)
  then show ?thesis by simp
qed

lemma stopRecording_releases_once:
  assumes "reachable s" and "stopRecording ev s = (Resolved b, s')"
  shows "\<exists>r. mediaRecorder s = Some r \<and>
           rec_stream (recorders s ! r) < length (streams s) \<and>
           (\<forall>t\<in>set (streams s ! rec_stream (recorders s ! r)). t = 0) \<and>
           streams s' = (streams s)[rec_stream (recorders s ! r) :=
                          map Suc (streams s ! rec_stream (recorders s ! r))] \<and>
           (\<forall>t\<in>set (streams s' ! rec_stream (recorders s ! r)). t = 1) \<and>
           b = new_Blob (audioChunks (ondataavailable (final_chunk ev) s))
                 (mimeType (recorders s ! r)) \<and>
           \<not> isRecording s' \<and>
           (\<forall>ev'. stopRecording ev' s' = (Rejected not_currently_recording, s'))"
proof -
  have i: "capture_inv s" using assms(1) by (rule reachable_inv)
  have rec: "isRecording s"
  proof (rule ccontr)
    assume "\<not> isRecording s"
    with assms(2) show False by (simp add: stop_not_recording)
  qed
  from recording_state [OF i rec] obtain r where r: "mediaRecorder s = Some r"
    "r < length (recorders s)" "rec_state (recorders s ! r) = Recording"
    "rec_stream (recorders s ! r) < length (streams s)"
    "\<forall>t\<in>set (streams s ! rec_stream (recorders s ! r)). t = 0"
    by blast
  note st = stop_ok [OF r(1) rec r(2,3,4), of ev]
  from st assms(2) have s': "s' = stopped ev r s" by simp
  from st assms(2) have b: "b = new_Blob (audioChunks (ondataavailable (final_chunk ev) s))
      (mimeType (recorders s ! r))"
    by (cases "error_event ev") simp_all
  have str: "streams s' = (streams s)[rec_stream (recorders s ! r) :=
      map Suc (streams s ! rec_stream (recorders s ! r))]"
    by (simp add: s' stopped_def)
  have one: "\<forall>t\<in>set (streams s' ! rec_stream (recorders s ! r)). t = 1"
    using r(4,5) by (auto simp: str)
  have nr: "\<not> isRecording s'" by (simp add: s' stopped_def)
  then have "\<forall>ev'. stopRecording ev' s' = (Rejected not_currently_recording, s')"
    by (simp add: stop_not_recording)
  with r str one b nr show ?thesis by blast
qed

section \<open>Properties of the relay server\<close>

text \<open>
  C7. A request to \<^verbatim>\<open>POST /chat\<close> with neither \<^verbatim>\<open>message\<close> nor \<^verbatim>\<open>audioBase64\<close> is
  answered with status 400 and the body \<^verbatim>\<open>{"response":"No message or audioBase64 provided."}\<close>,
  and nothing is forwarded to the generation model.
\<close>

theorem chat_rejects_missing_fields:
  assumes "message req = None" and "audioBase64 req = None"
  shows "chat generate req =
           ([], \<lparr>status = 400,
                  body = ''{'' @ [CHR 0x22] @ ''response'' @ [CHR 0x22] @ '':'' @ [CHR 0x22] @
                         ''No message or audioBase64 provided.'' @ [CHR 0x22] @ ''}''\<rparr>)"
  using assms
  by (simp add: chat_def chat_prompt_def truthy_def response_json_def json_string_def
      json_escape_def)

theorem chat_rejects_missing_fields_witness:
  "message chat_empty = None \<and> audioBase64 chat_empty = None \<and>
   status (snd (chat generate_hello chat_empty)) = 400 \<and>
   fst (chat generate_hello chat_empty) = [] \<and>
   fst (chat generate_hello (chat_empty\<lparr>message := Some ''hello''\<rparr>)) =
     [\<lparr>gen_model = ''med-intake'', gen_prompt = ''hello'', gen_stream = False\<rparr>]"
proof -
  have h1: "message chat_empty = None" and h2: "audioBase64 chat_empty = None"
    by (simp_all add: chat_empty_def)
  have f: "fst (chat generate_hello (chat_empty\<lparr>message := Some ''hello''\<rparr>)) =
     [\<lparr>gen_model = ''med-intake'', gen_prompt = ''hello'', gen_stream = False\<rparr>]"
    by (simp add: chat_def chat_prompt_def chat_empty_def truthy_def or_else_def
        generate_hello_def Let_def)
  from chat_rejects_missing_fields [OF h1 h2, of generate_hello] h1 h2 f show ?thesis by simp
qed

text \<open>The same answer when the fields are present but empty.\<close>

lemma chat_rejects_empty_fields:
  "\<not> truthy (message req) \<Longrightarrow> \<not> truthy (audioBase64 req) \<Longrightarrow>
   fst (chat generate req) = [] \<and> status (snd (chat generate req)) = 400"
  by (simp add: chat_def chat_prompt_def)

section \<open>Properties of the voice session\<close>

lemma form_recording_value:
  "form_recording =
     form_idle
       \<lparr>voiceState := (voiceState form_idle)\<lparr>isListening := True\<rparr>,
        currentField := Some chiefComplaint,
        recordingTimeoutRef := Some 1,
        timers := [\<lparr>timer_id = 1, delay = 30000, callback = AutoStop (render form_idle)\<rparr>],
        next_timer := 2,
        voiceAPI :=
          \<lparr>streams = [[1], [0]],
           recorders = [\<lparr>rec_stream = 1, mimeType = ''audio/webm;codecs=opus'',
                         rec_state = Recording\<rparr>],
           mediaRecorder = Some 0, audioChunks = [], isRecording = True\<rparr>\<rparr>"
  by (simp add: form_recording_def form_idle_def io0_def media_ok_def click_mic_def
      startListening_def ensure_permission_def begin_recording_def render_def setTimeout_def
      startRecording_def open_stream_def new_MediaRecorder_def set_rec_state_def
      choose_mimeType_def initial_capture_def Let_def)

text \<open>
  C6. Thirty seconds after a recording has started, the timer must stop it
  (\<^verbatim>\<open>// Auto-stop recording after 30 seconds\<close>). Its callback tests
  \<^verbatim>\<open>voiceState.isListening\<close> of the render in which the user started the session, and
  there it is false. For a session started on the idle form, the timer fires, leaves the
  list of timers and changes nothing else: the form still listens, the service still
  records, and nothing was transcribed.
\<close>

theorem autostop_timer_does_not_stop:
  "isListening (voiceState form_recording) \<and> isRecording (voiceAPI form_recording) \<and>
   currentField form_recording = Some chiefComplaint \<and>
   timers form_recording =
     [\<lparr>timer_id = 1, delay = 30000, callback = AutoStop (render form_idle)\<rparr>] \<and>
   \<not> isListening (seen_voiceState (render form_idle)) \<and>
   fire io0 1 form_recording = form_recording\<lparr>timers := []\<rparr> \<and>
   isListening (voiceState (fire io0 1 form_recording)) \<and>
   isRecording (voiceAPI (fire io0 1 form_recording)) \<and>
   effects (fire io0 1 form_recording) = []"
  unfolding form_recording_value
  by (simp add: fire_def run_callback_def clearTimeout_def render_def form_idle_def)

text \<open>
  So it is for every session started while the form was not listening: the callback of its
  timer does nothing, and neither would the \<open>stopListening\<close> of that render.
\<close>

lemma autostop_of_idle_render:
  "\<not> isListening (voiceState s) \<Longrightarrow> run_callback io (AutoStop (render s)) s' = s'"
  by (simp add: run_callback_def render_def)

lemma stopListening_of_idle_render:
  "\<not> isListening (voiceState s) \<Longrightarrow> stopListening io (render s) s' = (True, s')"
  by (simp add: stopListening_def render_def split: option.splits)

lemma find_fresh_timer:
  assumes "\<forall>t\<in>set ts. timer_id t \<noteq> n" and "timer_id x = n" and "P x"
  shows "find (\<lambda>t. timer_id t = n) (filter P (ts @ [x])) = Some x"
  using assms by (induction ts) simp_all

lemma stopListening_success:
  assumes "isListening (seen_voiceState c)" and "seen_currentField c = Some f"
    and "stopRecording (io_stop io) (voiceAPI s) = (Resolved audioBlob, cap)"
    and "transcribe (io_net io) audioBlob (seen_preferredVoiceService c) = (ev, result)"
    and "\<not> failed result" and "res_text result \<noteq> []"
  shows "stopListening io c s =
     (True,
      finally_stop
        (s\<lparr>voiceAPI := cap,
           effects := effects s @ ev,
           formData := (formData s)
             (f := formData s f @ (if formData s f \<noteq> [] then '' '' else []) @
                   trim (res_text result)),
           voiceState := (voiceState s)
             \<lparr>isListening := False, transcript := res_text result,
              error := success_notice (io_round io) result\<rparr>,
           timers := timers s @ [\<lparr>timer_id = next_timer s, delay = 3000, callback = ClearStatus\<rparr>],
           next_timer := Suc (next_timer s)\<rparr>))"
  using assms
  by (simp add: stopListening_def set_error_def setTimeout_def failed_def Let_def)

lemma finally_stop_fields:
  "formData (finally_stop x) = formData x"
  "voiceState (finally_stop x) = voiceState x"
  "currentField (finally_stop x) = None"
  by (simp_all add: finally_stop_def clearTimeout_def Let_def split: option.splits)

lemma finally_stop_timers:
  "\<exists>P. timers (finally_stop x) = filter P (timers x) \<and>
       (\<forall>t. (\<forall>i. recordingTimeoutRef x = Some i \<longrightarrow> timer_id t \<noteq> i) \<longrightarrow> P t)"
proof (cases "recordingTimeoutRef x")
  case None
  then have "timers (finally_stop x) = filter (\<lambda>t. True) (timers x)"
    by (simp add: finally_stop_def Let_def)
  then show ?thesis by blast
next
  case (Some i)
  show ?thesis
  proof (cases "i = 0")
    case True
    with Some have "timers (finally_stop x) = filter (\<lambda>t. True) (timers x)"
      by (simp add: finally_stop_def Let_def)
    then show ?thesis by blast
  next
    case False
    with Some have "timers (finally_stop x) = filter (\<lambda>t. timer_id t \<noteq> i) (timers x)"
      by (simp add: finally_stop_def clearTimeout_def Let_def)
    with Some show ?thesis by (intro exI [of _ "\<lambda>t. timer_id t \<noteq> i"]) simp
  qed
qed

lemma success_notice_nonempty: "success_notice rnd result \<noteq> []"
  by (simp add: success_notice_def check_mark_def)

lemma form_recording_stop:
  "fst (stopRecording (io_stop io0) (voiceAPI form_recording)) = Resolved recorded_blob"
  unfolding form_recording_value
  by (simp add: io0_def stop_ok_def stopRecording_def ondataavailable_def set_rec_state_def
      stop_tracks_def new_Blob_def blob_size_def chunk1_def recorded_blob_def Let_def)

lemma fever_transcribe:
  "snd (transcribe (io_net io0) recorded_blob OpenAI) = fever_result"
  by (simp add: io0_def transcribe_def client_defs input_defs recorded_blob_def fever_result_def
      split: prod.splits)

lemma trim_fever: "trim ''fever for two days'' = ''fever for two days''"
  by code_simp

lemma round_87: "round_half_up (87 / 100) = 87"
  by code_simp

lemma show_87: "show_int (round_half_up (87 / 100)) = ''87''"
  by (simp add: round_87 show_int_def show_nat.simps [of 87] show_nat.simps [of 8]
      digit_char_def)

lemma form_recording_literal:
  "form_recording =
     \<lparr>voiceState = \<lparr>isSupported = True, isListening = True, hasPermission = True,
                     error = [], transcript = []\<rparr>,
      currentField = Some chiefComplaint,
      formData = (\<lambda>f. [])(chiefComplaint := ''cough''),
      preferredVoiceService = OpenAI,
      recordingTimeoutRef = Some 1,
      timers = [\<lparr>timer_id = 1, delay = 30000, callback = AutoStop (render form_idle)\<rparr>],
      next_timer = 2,
      voiceAPI =
        \<lparr>streams = [[1], [0]],
         recorders = [\<lparr>rec_stream = 1, mimeType = ''audio/webm;codecs=opus'',
                       rec_state = Recording\<rparr>],
         mediaRecorder = Some 0, audioChunks = [], isRecording = True\<rparr>,
      effects = []\<rparr>"
  unfolding form_recording_value by (simp add: form_idle_def)

lemma form_recording_stop_full:
  "stopRecording stop_ok (voiceAPI form_recording) = (Resolved recorded_blob, capture_stopped)"
  unfolding form_recording_literal
  by (simp add: stop_ok_def stopRecording_def ondataavailable_def set_rec_state_def
      stop_tracks_def new_Blob_def blob_size_def chunk1_def recorded_blob_def
      capture_stopped_def Let_def)

lemma fever_transcribe_full:
  "transcribe env_500_then_fever recorded_blob OpenAI =
     (fst (transcribe env_500_then_fever recorded_blob OpenAI), fever_result)"
  using fever_transcribe by (simp add: io0_def prod_eq_iff)

lemma fever_notice:
  "success_notice round_half_up fever_result =
     check_mark @ '' Transcribed successfully (87% confidence)''"
  by (simp add: success_notice_def fever_result_def show_87)

lemma first_stop_value:
  "stopListening io0 (render form_recording) form_recording = (True, form_after_first)"
proof -
  have h1: "isListening (seen_voiceState (render form_recording))"
    and h2: "seen_currentField (render form_recording) = Some chiefComplaint"
    unfolding form_recording_literal by (simp_all add: render_def)
  have h3: "stopRecording (io_stop io0) (voiceAPI form_recording) =
      (Resolved recorded_blob, capture_stopped)"
    using form_recording_stop_full by (simp add: io0_def)
  have h4: "transcribe (io_net io0) recorded_blob
      (seen_preferredVoiceService (render form_recording)) =
      (fst (transcribe env_500_then_fever recorded_blob OpenAI), fever_result)"
    unfolding form_recording_literal using fever_transcribe_full
    by (simp add: render_def io0_def)
  have h5: "\<not> failed fever_result" and h6: "res_text fever_result \<noteq> []"
    by (simp_all add: fever_result_def failed_def truthy_def)
  have r: "io_round io0 = round_half_up" by (simp add: io0_def)
  show ?thesis
    unfolding stopListening_success [OF h1 h2 h3 h4 h5 h6] r fever_notice
    unfolding form_recording_literal
    by (simp add: finally_stop_def clearTimeout_def fever_result_def trim_fever
        form_after_first_def Let_def)
qed

lemma render_form_recording: "render form_recording = stale_closure"
  unfolding form_recording_literal by (simp add: render_def stale_closure_def)

lemma form_switched_value:
  "form_switched =
     \<lparr>voiceState = \<lparr>isSupported = True, isListening = True, hasPermission = True,
                     error = [], transcript = []\<rparr>,
      currentField = Some allergies,
      formData = (\<lambda>f. [])(chiefComplaint := ''cough fever for two days''),
      preferredVoiceService = OpenAI,
      recordingTimeoutRef = Some 3,
      timers = [\<lparr>timer_id = 2, delay = 3000, callback = ClearStatus\<rparr>,
                \<lparr>timer_id = 3, delay = 30000, callback = AutoStop stale_closure\<rparr>],
      next_timer = 4,
      voiceAPI = capture_second,
      effects = fst (transcribe env_500_then_fever recorded_blob OpenAI)\<rparr>"
proof -
  have c: "isListening (seen_voiceState stale_closure)"
    "seen_currentField stale_closure = Some chiefComplaint"
    "hasPermission (seen_voiceState stale_closure)"
    by (simp_all add: stale_closure_def)
  have st: "stopListening io0 stale_closure form_recording = (True, form_after_first)"
    using first_stop_value by (simp add: render_form_recording)
  have "form_switched = begin_recording io0 stale_closure allergies form_after_first"
    unfolding form_switched_def click_mic_def render_form_recording
    by (simp add: startListening_def c st ensure_permission_def)
  also have "\<dots> = \<lparr>voiceState = \<lparr>isSupported = True, isListening = True, hasPermission = True,
                     error = [], transcript = []\<rparr>,
      currentField = Some allergies,
      formData = (\<lambda>f. [])(chiefComplaint := ''cough fever for two days''),
      preferredVoiceService = OpenAI,
      recordingTimeoutRef = Some 3,
      timers = [\<lparr>timer_id = 2, delay = 3000, callback = ClearStatus\<rparr>,
                \<lparr>timer_id = 3, delay = 30000, callback = AutoStop stale_closure\<rparr>],
      next_timer = 4,
      voiceAPI = capture_second,
      effects = fst (transcribe env_500_then_fever recorded_blob OpenAI)\<rparr>"
    by (simp add: begin_recording_def form_after_first_def capture_stopped_def
        capture_second_def io0_def media_ok_def startRecording_def open_stream_def
        new_MediaRecorder_def set_rec_state_def choose_mimeType_def setTimeout_def Let_def)
  finally show ?thesis .
qed

lemma second_stop_full:
  "stopRecording stop_ok capture_second = (Resolved recorded_blob, capture_second_stopped)"
  by (simp add: stop_ok_def stopRecording_def ondataavailable_def set_rec_state_def
      stop_tracks_def new_Blob_def blob_size_def chunk1_def recorded_blob_def
      capture_second_def capture_second_stopped_def Let_def)

lemma penicillin_transcribe:
  "snd (transcribe (io_net io1) recorded_blob OpenAI) = penicillin_result"
  by (simp add: io1_def io0_def transcribe_def client_defs input_defs penicillin_body_def
      recorded_blob_def penicillin_result_def split: prod.splits)

lemma trim_penicillin: "trim ''penicillin'' = ''penicillin''"
  by code_simp

lemma timer_fires_for_old_field:
  "formData (fire io1 3 form_switched) =
     (\<lambda>f. [])(chiefComplaint := ''cough fever for two days penicillin'')"
proof -
  let ?s = "clearTimeout 3 form_switched"
  have h1: "isListening (seen_voiceState stale_closure)"
    and h2: "seen_currentField stale_closure = Some chiefComplaint"
    and p: "seen_preferredVoiceService stale_closure = OpenAI"
    by (simp_all add: stale_closure_def)
  have v: "voiceAPI ?s = capture_second"
    and fd: "formData ?s = (\<lambda>f. [])(chiefComplaint := ''cough fever for two days'')"
    unfolding form_switched_value by (simp_all add: clearTimeout_def)
  have h3: "stopRecording (io_stop io1) (voiceAPI ?s) = (Resolved recorded_blob, capture_second_stopped)"
    using second_stop_full by (simp add: v io1_def io0_def)
  obtain ev where h4: "transcribe (io_net io1) recorded_blob
      (seen_preferredVoiceService stale_closure) = (ev, penicillin_result)"
    using penicillin_transcribe p by (cases "transcribe (io_net io1) recorded_blob OpenAI") simp
  have h5: "\<not> failed penicillin_result" and h6: "res_text penicillin_result \<noteq> []"
    by (simp_all add: penicillin_result_def failed_def truthy_def)
  have f: "fire io1 3 form_switched = snd (stopListening io1 stale_closure ?s)"
    unfolding fire_def form_switched_value
    by (simp add: run_callback_def stale_closure_def)
  show ?thesis
    unfolding f stopListening_success [OF h1 h2 h3 h4 h5 h6]
    by (simp add: finally_stop_fields fd penicillin_result_def trim_penicillin)
qed

lemma chatbot_stopListening_success:
  assumes "stopRecording (io_stop io) (tc_voiceAPI s) = (Resolved audioBlob, cap)"
    and "transcribe (io_net io) audioBlob OpenAI = (ev, result)"
    and "\<not> failed result" and "res_text result \<noteq> []"
  shows "inputText (snd (chatbot_stopListening io True s)) = res_text result"
  using assms by (simp add: chatbot_stopListening_def failed_def Let_def)

lemma chatbot_overwrites:
  "inputText (snd (chatbot_stopListening io0 True chatbot_typing)) = ''fever for two days''"
proof -
  have h1: "stopRecording (io_stop io0) (tc_voiceAPI chatbot_typing) =
      (Resolved recorded_blob, capture_stopped)"
    using form_recording_stop_full by (simp add: chatbot_typing_def io0_def)
  have h2: "transcribe (io_net io0) recorded_blob OpenAI =
      (fst (transcribe env_500_then_fever recorded_blob OpenAI), fever_result)"
    using fever_transcribe_full by (simp add: io0_def)
  have h3: "\<not> failed fever_result" and h4: "res_text fever_result \<noteq> []"
    by (simp_all add: fever_result_def failed_def truthy_def)
  show ?thesis
    unfolding chatbot_stopListening_success [OF h1 h2 h3 h4] by (simp add: fever_result_def)
qed

text \<open>
  C9, as claimed: every success transition with a non-empty text would append the trimmed
  text to the field that owns the session. The triage chat replaces the content of its
  input by the text. And on the form, after the user has gone from the chief complaint to
  the allergies, the thirty-second timer of the second recording runs the handler of the
  older render: what was said for the allergies is appended to the chief complaint, and
  the allergies stay empty.
\<close>

theorem success_transition_not_append_counterexample:
  "inputText chatbot_typing = ''I have a'' \<and>
   tc_isListening chatbot_typing \<and>
   inputText (snd (chatbot_stopListening io0 True chatbot_typing)) = ''fever for two days'' \<and>
   currentField form_switched = Some allergies \<and>
   isListening (voiceState form_switched) \<and>
   formData form_switched allergies = [] \<and>
   formData form_switched chiefComplaint = ''cough fever for two days'' \<and>
   formData (fire io1 3 form_switched) allergies = [] \<and>
   formData (fire io1 3 form_switched) chiefComplaint = ''cough fever for two days penicillin''"
proof -
  have "inputText chatbot_typing = ''I have a''" and "tc_isListening chatbot_typing"
    by (simp_all add: chatbot_typing_def)
  moreover have "currentField form_switched = Some allergies"
    and "isListening (voiceState form_switched)"
    and "formData form_switched allergies = []"
    and "formData form_switched chiefComplaint = ''cough fever for two days''"
    unfolding form_switched_value by simp_all
  moreover have "formData (fire io1 3 form_switched) allergies = []"
    and "formData (fire io1 3 form_switched) chiefComplaint =
      ''cough fever for two days penicillin''"
    by (simp_all add: timer_fires_for_old_field)
  ultimately show ?thesis using chatbot_overwrites by simp
qed

lemma starts_with_append: "starts_with w (w @ x)"
  by (induction w) simp_all

lemma str_includes_prefix: "str_includes (w @ x) w"
proof (cases "w @ x")
  case Nil
  then show ?thesis by simp
next
  case (Cons c s)
  have "starts_with w (w @ x)" by (rule starts_with_append)
  with Cons show ?thesis by simp
qed

lemma success_notice_banner: "status_banner (success_notice rnd result) = SuccessBanner"
proof -
  have "str_includes (success_notice rnd result) check_mark"
    unfolding success_notice_def by (rule str_includes_prefix)
  with success_notice_nonempty [of rnd result] show ?thesis
    by (simp add: status_banner_def)
qed

text \<open>
  C9, amended. On the intake form, when \<open>stopListening\<close> runs for the field the form is
  recording (its handler sees the current field), the recording stops with a sample and
  the transcription of it has no error and a non-empty text, then that field holds its
  former content, one space if that content was not empty, and the trimmed text; no other
  field changes; the form is idle again; and the error state is cleared: the status line
  holds the success notice, which the view shows as a success, and the three-second timer
  registered by the handler empties it when it fires.
\<close>

theorem stopListening_success_appends:
  assumes "isListening (seen_voiceState c)" and "seen_currentField c = Some f"
    and "currentField s = Some f"
    and "stopRecording (io_stop io) (voiceAPI s) = (Resolved audioBlob, cap)"
    and "transcribe (io_net io) audioBlob (seen_preferredVoiceService c) = (ev, result)"
    and "\<not> failed result" and "res_text result \<noteq> []"
    and "\<forall>t\<in>set (timers s). timer_id t < next_timer s"
    and "\<forall>i. recordingTimeoutRef s = Some i \<longrightarrow> i < next_timer s"
    and "s' = snd (stopListening io c s)"
  shows "formData s' f =
           formData s f @ (if formData s f = [] then [] else '' '') @ trim (res_text result) \<and>
         (\<forall>g. g \<noteq> f \<longrightarrow> formData s' g = formData s g) \<and>
         currentField s' = None \<and> \<not> isListening (voiceState s') \<and>
         status_banner (error (voiceState s')) = SuccessBanner \<and>
         error (voiceState s') = success_notice (io_round io) result \<and>
         \<lparr>timer_id = next_timer s, delay = 3000, callback = ClearStatus\<rparr> \<in> set (timers s') \<and>
         error (voiceState (fire io' (next_timer s) s')) = [] \<and>
         status_banner (error (voiceState (fire io' (next_timer s) s'))) = NoBanner"
proof -
  let ?t = "\<lparr>timer_id = next_timer s, delay = 3000, callback = ClearStatus\<rparr>"
  let ?x = "s\<lparr>voiceAPI := cap,
           effects := effects s @ ev,
           formData := (formData s)
             (f := formData s f @ (if formData s f \<noteq> [] then '' '' else []) @
                   trim (res_text result)),
           voiceState := (voiceState s)
             \<lparr>isListening := False, transcript := res_text result,
              error := success_notice (io_round io) result\<rparr>,
           timers := timers s @ [?t],
           next_timer := Suc (next_timer s)\<rparr>"
  have s': "s' = finally_stop ?x"
    using stopListening_success [OF assms(1,2,4-7)] assms(10) by simp
  have fd: "formData s' =
      (formData s)(f := formData s f @ (if formData s f \<noteq> [] then '' '' else []) @
                         trim (res_text result))"
    by (simp add: s' finally_stop_fields)
  have cf: "currentField s' = None"
    by (simp add: s' finally_stop_fields)
  have vs: "voiceState s' = (voiceState s)
             \<lparr>isListening := False, transcript := res_text result,
              error := success_notice (io_round io) result\<rparr>"
    by (simp add: s' finally_stop_fields)
  have fresh: "\<forall>t\<in>set (timers s). timer_id t \<noteq> next_timer s"
    using assms(8) by auto
  from finally_stop_timers [of ?x] obtain P where
    P: "timers s' = filter P (timers ?x)"
      "\<forall>t. (\<forall>i. recordingTimeoutRef ?x = Some i \<longrightarrow> timer_id t \<noteq> i) \<longrightarrow> P t"
    unfolding s' by blast
  have "\<forall>i. recordingTimeoutRef ?x = Some i \<longrightarrow> timer_id ?t \<noteq> i"
    using assms(9) by auto
  with P(2) have Pt: "P ?t" by blast
  have tm: "timers s' = filter P (timers s @ [?t])"
    using P(1) by simp
  have mem: "?t \<in> set (timers s')"
    using Pt by (simp add: tm)
  have "find (\<lambda>t. timer_id t = next_timer s) (timers s') = Some ?t"
    unfolding tm using fresh Pt
    by (intro find_fresh_timer [of "timers s" "next_timer s" ?t P]) simp_all
  then have fr: "error (voiceState (fire io' (next_timer s) s')) = []"
    by (simp add: fire_def run_callback_def set_error_def clearTimeout_def)
  have c1: "formData s' f =
      formData s f @ (if formData s f = [] then [] else '' '') @ trim (res_text result)"
    by (simp add: fd)
  have c2: "\<forall>g. g \<noteq> f \<longrightarrow> formData s' g = formData s g"
    by (simp add: fd)
  have c3: "\<not> isListening (voiceState s')"
    by (simp add: vs)
  have c4: "error (voiceState s') = success_notice (io_round io) result"
    by (simp add: vs)
  have c5: "status_banner (error (voiceState s')) = SuccessBanner"
    unfolding c4 by (rule success_notice_banner)
  have c6: "status_banner (error (voiceState (fire io' (next_timer s) s'))) = NoBanner"
    unfolding fr by (simp add: status_banner_def)
  from c1 c2 cf c3 c4 c5 c6 mem fr show ?thesis by blast
qed

theorem stopListening_success_appends_witness:
  "isListening (seen_voiceState (render form_recording)) \<and>
   seen_currentField (render form_recording) = Some chiefComplaint \<and>
   currentField form_recording = Some chiefComplaint \<and>
   fst (stopRecording (io_stop io0) (voiceAPI form_recording)) = Resolved recorded_blob \<and>
   snd (transcribe (io_net io0) recorded_blob OpenAI) = fever_result \<and>
   \<not> failed fever_result \<and> res_text fever_result \<noteq> [] \<and>
   formData form_recording chiefComplaint = ''cough'' \<and>
   formData (click_stop io0 form_recording) chiefComplaint = ''cough fever for two days'' \<and>
   formData (click_stop io0 form_recording) allergies = formData form_recording allergies \<and>
   currentField (click_stop io0 form_recording) = None \<and>
   \<not> isListening (voiceState (click_stop io0 form_recording)) \<and>
   status_banner (error (voiceState (click_stop io0 form_recording))) = SuccessBanner \<and>
   error (voiceState (fire io0 2 (click_stop io0 form_recording))) = []"
proof -
  have h1: "isListening (seen_voiceState (render form_recording))"
    and h2: "seen_currentField (render form_recording) = Some chiefComplaint"
    and h2': "currentField form_recording = Some chiefComplaint"
    and p: "seen_preferredVoiceService (render form_recording) = OpenAI"
    and n: "next_timer form_recording = 2"
    and fd: "formData form_recording chiefComplaint = ''cough''"
    unfolding form_recording_value by (simp_all add: render_def form_idle_def)
  obtain cap where h3: "stopRecording (io_stop io0) (voiceAPI form_recording) =
      (Resolved recorded_blob, cap)"
    using form_recording_stop by (cases "stopRecording (io_stop io0) (voiceAPI form_recording)") simp
  obtain ev where h4: "transcribe (io_net io0) recorded_blob
      (seen_preferredVoiceService (render form_recording)) = (ev, fever_result)"
    using fever_transcribe p by (cases "transcribe (io_net io0) recorded_blob OpenAI") simp
  have h5: "\<not> failed fever_result" and h6: "res_text fever_result \<noteq> []"
    by (simp_all add: fever_result_def failed_def truthy_def)
  have h7: "\<forall>t\<in>set (timers form_recording). timer_id t < next_timer form_recording"
    unfolding form_recording_value by simp
  have h8: "\<forall>i. recordingTimeoutRef form_recording = Some i \<longrightarrow> i < next_timer form_recording"
    unfolding form_recording_value by simp
  have h9: "click_stop io0 form_recording =
      snd (stopListening io0 (render form_recording) form_recording)"
    by (simp add: click_stop_def)
  have a: "allergies \<noteq> chiefComplaint" by simp
  note t = stopListening_success_appends [OF h1 h2 h2' h3 h4 h5 h6 h7 h8 h9, of io0]
  from t have "formData (click_stop io0 form_recording) chiefComplaint =
      ''cough fever for two days''"
    by (simp add: fd fever_result_def trim_fever)
  moreover from t a have "formData (click_stop io0 form_recording) allergies =
      formData form_recording allergies"
    by blast
  moreover from t have "error (voiceState (fire io0 2 (click_stop io0 form_recording))) = []"
    by (simp add: n)
  moreover from t have "currentField (click_stop io0 form_recording) = None"
    and "\<not> isListening (voiceState (click_stop io0 form_recording))"
    by simp_all
  moreover from t have
    "status_banner (error (voiceState (click_stop io0 form_recording))) = SuccessBanner"
    by blast
  ultimately show ?thesis
    using h1 h2 h2' form_recording_stop fever_transcribe h5 h6 fd by simp
qed

end
